theory Spec2Isabelle
  imports Complex_Main "HOL-Library.Sublist"
begin

section \<open>JavaScript values\<close>

text \<open>
  A JavaScript \<open>number\<close> is an IEEE double. Only comparison and equality of numbers occur
  in the modelled code, and on finite doubles these agree with the order of the reals, so a
  finite number carries its real value; the infinities and NaN are separate values.
\<close>

datatype number = Finite real | PosInfinity | NegInfinity | NaN

text \<open>The operator \<open><\<close> on two numbers: false as soon as one side is NaN.\<close>

fun number_lt :: "number \<Rightarrow> number \<Rightarrow> bool" where
  "number_lt NaN y = False"
| "number_lt x NaN = False"
| "number_lt (Finite a) (Finite b) = (a < b)"
| "number_lt (Finite a) PosInfinity = True"
| "number_lt NegInfinity (Finite b) = True"
| "number_lt NegInfinity PosInfinity = True"
| "number_lt x y = False"

text \<open>
  Values of static type \<open>any\<close> (what \<open>JSON.parse\<close> returns, the cells of a database row,
  the payload of a point returned by the vector index) are modelled as they exist at run
  time. An object is the list of its own properties; a property that is absent reads as
  \<open>undefined\<close>.
\<close>

datatype jsval =
    JUndefined
  | JNull
  | JBool bool
  | JNumber number
  | JString string
  | JArray "jsval list"
  | JObject "(string \<times> jsval) list"

text \<open>An \<open>Error\<close> object: its \<open>name\<close>, its \<open>message\<close> and its optional \<open>cause\<close>.\<close>

datatype error = Error (name: string) (message: string) (cause: "error option")

text \<open>\<open>Error.prototype.toString\<close>, which a template literal applies to an interpolated error.\<close>

definition Error_toString :: "error \<Rightarrow> string" where
  "Error_toString e =
     (if name e = [] then message e
      else if message e = [] then name e
      else name e @ '': '' @ message e)"

text \<open>
  Reading the property \<open>k\<close> of a value, for a property name that no built-in prototype
  defines (the names read by the code are \<open>sql\<close>, \<open>confidence\<close>, \<open>explanation\<close> and
  \<open>content\<close>). Reading a property of \<open>undefined\<close> or \<open>null\<close> throws a TypeError; the result
  \<open>Inl\<close> carries it, with the message of the V8 engine.
\<close>

definition TypeError :: "string \<Rightarrow> error" where
  "TypeError msg = Error ''TypeError'' msg None"

fun get_prop :: "jsval \<Rightarrow> string \<Rightarrow> error + jsval" where
  "get_prop JUndefined k =
     Inl (TypeError (''Cannot read properties of undefined (reading '' @ [CHR 0x27] @ k @ [CHR 0x27] @ '')''))"
| "get_prop JNull k =
     Inl (TypeError (''Cannot read properties of null (reading '' @ [CHR 0x27] @ k @ [CHR 0x27] @ '')''))"
| "get_prop (JObject props) k = Inr (case map_of props k of None \<Rightarrow> JUndefined | Some v \<Rightarrow> v)"
| "get_prop v k = Inr JUndefined"

text \<open>\<open>Array.prototype.join\<close> on strings that are already converted.\<close>

fun join :: "string \<Rightarrow> string list \<Rightarrow> string" where
  "join sep [] = []"
| "join sep [x] = x"
| "join sep (x # y # ys) = x @ sep @ join sep (y # ys)"

text \<open>
  The conversions that depend on the engine's number formatting and parsing are taken as
  parameters: \<open>num_to_string\<close> is \<open>Number.prototype.toString\<close> and \<open>string_to_num\<close> is the
  conversion of a string to a number.

  Converting an object to a primitive calls its \<open>toString\<close> and \<open>valueOf\<close> methods. For an
  object that comes out of \<open>JSON.parse\<close> or of a database cell an own property \<open>toString\<close>
  is never a function, so it hides \<open>Object.prototype.toString\<close> and the conversion throws a
  TypeError (message of the V8 engine); without such a property the object prints as
  \<open>[object Object]\<close>. An array prints as its elements joined by commas, \<open>undefined\<close> and
  \<open>null\<close> elements giving the empty string; an element that throws makes the array throw.
\<close>

definition cannot_convert :: error where
  "cannot_convert = TypeError ''Cannot convert object to primitive value''"

fun ToString :: "(number \<Rightarrow> string) \<Rightarrow> jsval \<Rightarrow> error + string"
  and ToString_elements :: "(number \<Rightarrow> string) \<Rightarrow> jsval list \<Rightarrow> error + string list" where
  "ToString num_to_string JUndefined = Inr ''undefined''"
| "ToString num_to_string JNull = Inr ''null''"
| "ToString num_to_string (JBool b) = Inr (if b then ''true'' else ''false'')"
| "ToString num_to_string (JNumber n) = Inr (num_to_string n)"
| "ToString num_to_string (JString s) = Inr s"
| "ToString num_to_string (JArray xs) =
     (case ToString_elements num_to_string xs of
        Inl thrown \<Rightarrow> Inl thrown
      | Inr ss \<Rightarrow> Inr (join '','' ss))"
| "ToString num_to_string (JObject props) =
     (if map_of props ''toString'' = None then Inr ''[object Object]'' else Inl cannot_convert)"
| "ToString_elements num_to_string [] = Inr []"
| "ToString_elements num_to_string (x # xs) =
     (case (if x = JUndefined \<or> x = JNull then Inr [] else ToString num_to_string x) of
        Inl thrown \<Rightarrow> Inl thrown
      | Inr s \<Rightarrow>
          (case ToString_elements num_to_string xs of
             Inl thrown \<Rightarrow> Inl thrown
           | Inr ss \<Rightarrow> Inr (s # ss)))"

fun ToNumber :: "(number \<Rightarrow> string) \<Rightarrow> (string \<Rightarrow> number) \<Rightarrow> jsval \<Rightarrow> error + number" where
  "ToNumber num_to_string string_to_num JUndefined = Inr NaN"
| "ToNumber num_to_string string_to_num JNull = Inr (Finite 0)"
| "ToNumber num_to_string string_to_num (JBool b) = Inr (if b then Finite 1 else Finite 0)"
| "ToNumber num_to_string string_to_num (JNumber n) = Inr n"
| "ToNumber num_to_string string_to_num (JString s) = Inr (string_to_num s)"
| "ToNumber num_to_string string_to_num (JArray xs) =
     (case ToString num_to_string (JArray xs) of
        Inl thrown \<Rightarrow> Inl thrown
      | Inr s \<Rightarrow> Inr (string_to_num s))"
| "ToNumber num_to_string string_to_num (JObject props) =
     (if map_of props ''toString'' = None then Inr NaN else Inl cannot_convert)"

text \<open>Truthiness, as the conditional operator tests it.\<close>

fun truthy :: "jsval \<Rightarrow> bool" where
  "truthy JUndefined = False"
| "truthy JNull = False"
| "truthy (JBool b) = b"
| "truthy (JNumber n) = (n \<noteq> Finite 0 \<and> n \<noteq> NaN)"
| "truthy (JString s) = (s \<noteq> [])"
| "truthy v = True"

section \<open>Data of the providers and services\<close>

text \<open>A database row is an object keyed by column name; \<open>pg\<close> returns \<open>{rows}\<close>.\<close>

type_synonym row = "(string \<times> jsval) list"

definition row_get :: "row \<Rightarrow> string \<Rightarrow> jsval" where
  "row_get r k = (case map_of r k of None \<Rightarrow> JUndefined | Some v \<Rightarrow> v)"

record pg_result =
  rows :: "row list"

record QdrantConfig =
  url :: string
  apiKey :: "string option"
  collectionName :: string

record payload =
  content :: string
  metadata :: "(string \<times> jsval) list option"

record VectorRecord =
  rid :: string
  vector :: "number list"
  payload :: payload

text \<open>
  What the vector index client returns for a search hit. The code casts the fields to the
  shape of a \<open>VectorRecord\<close> without checking them, so they stay run-time values.
\<close>

record point =
  point_id :: jsval
  point_vector :: jsval
  point_payload :: jsval

record collection_config =
  size :: number
  distance :: string

text \<open>
  An entry of the collection listing. Only its name is read by the code; the configuration
  is there for clients (such as the test double) that report it.
\<close>

record collection_description =
  col_name :: string
  col_config :: "collection_config option"

record search_params =
  sp_vector :: "number list"
  sp_limit :: number
  sp_with_payload :: bool
  sp_filter :: "jsval option"

record TextToSqlConfig =
  model :: string
  embeddingModel :: string
  maxTokens :: "number option"
  temperature :: "number option"

record SqlResult =
  sql :: jsval
  confidence :: jsval
  explanation :: jsval

record QueryPipelineConfig =
  minConfidence :: number
  dryRun :: bool
  maxRetries :: number

record QueryResult =
  question :: string
  qr_sql :: jsval
  qr_confidence :: jsval
  qr_explanation :: jsval
  results :: "row list"
  executionTime :: int

section \<open>The outside world\<close>

text \<open>
  Everything outside the repository (the \<open>pg\<close> pool, the Qdrant client, the AI SDK, the
  clock, the UUID generator, \<open>JSON.parse\<close>) is a parameter: an operation on an abstract
  external state \<open>'s\<close> that answers with a value or with the error it rejects with. All
  theorems below hold for every such environment. The statement handed to \<open>pool.query\<close> is
  a run-time value, since \<open>askQuestion\<close> passes on the \<open>sql\<close> field of the parsed completion
  as it is.
\<close>

type_synonym ('s, 'a) external = "'s \<Rightarrow> (error + 'a) \<times> 's"

record 's env =
  pool_query :: "jsval \<Rightarrow> jsval list option \<Rightarrow> ('s, pg_result) external"
  client_getCollections :: "('s, collection_description list) external"
  client_createCollection :: "string \<Rightarrow> collection_config \<Rightarrow> ('s, unit) external"
  client_upsert :: "string \<Rightarrow> bool \<Rightarrow> VectorRecord list \<Rightarrow> ('s, unit) external"
  client_search :: "string \<Rightarrow> search_params \<Rightarrow> ('s, point list) external"
  client_deleteCollection :: "string \<Rightarrow> ('s, unit) external"
  ai_embed :: "string \<Rightarrow> string \<Rightarrow> ('s, number list) external"
  ai_generateText :: "string \<Rightarrow> string \<Rightarrow> number \<Rightarrow> number \<Rightarrow> ('s, string) external"
  crypto_randomUUID :: "'s \<Rightarrow> string \<times> 's"
  Date_now :: "'s \<Rightarrow> int \<times> 's"
  Date_toISOString :: "'s \<Rightarrow> string \<times> 's"
  JSON_parse :: "string \<Rightarrow> error + jsval"
  Number_toString :: "number \<Rightarrow> string"
  StringToNumber :: "string \<Rightarrow> number"

text \<open>
  The calls that leave the process, in the order they are made. The three built-ins that
  only read the environment are recorded with the value they returned.
\<close>

datatype call =
    PoolQuery jsval "jsval list option"
  | GetCollections
  | CreateCollection string collection_config
  | Upsert string bool "VectorRecord list"
  | Search string search_params
  | DeleteCollection string
  | Embed string string
  | GenerateText string string number number
  | RandomUUID string
  | DateNow int
  | NewDateISO string

record 's world =
  ext :: 's
  calls :: "call list"

section \<open>Promises and effects\<close>

text \<open>A promise settles with a value (\<open>Inr\<close>) or rejects with an error (\<open>Inl\<close>).\<close>

type_synonym ('s, 'a) promise = "'s world \<Rightarrow> (error + 'a) \<times> 's world"

definition external_call :: "call \<Rightarrow> ('s, 'a) external \<Rightarrow> ('s, 'a) promise" where
  "external_call c op w =
     (case op (ext w) of (r, s') \<Rightarrow> (r, w\<lparr>ext := s', calls := calls w @ [c]\<rparr>))"

definition resolve :: "'a \<Rightarrow> ('s, 'a) promise" where
  "resolve x w = (Inr x, w)"

text \<open>\<open>const x = await p; rest\<close> inside an async function.\<close>

definition await :: "('s, 'a) promise \<Rightarrow> ('a \<Rightarrow> ('s, 'b) promise) \<Rightarrow> ('s, 'b) promise" where
  "await p rest w =
     (case p w of (Inl e, w') \<Rightarrow> (Inl e, w') | (Inr x, w') \<Rightarrow> rest x w')"

text \<open>
  An \<open>Effect\<close> ends in a success, in a typed failure (the error channel), or in a defect
  (an exception thrown by plain code inside \<open>Effect.gen\<close>, which no \<open>mapError\<close> sees).
\<close>

datatype 'a exit = Success 'a | Failure error | Die error

type_synonym ('s, 'a) effect = "'s world \<Rightarrow> 'a exit \<times> 's world"

definition Effect_succeed :: "'a \<Rightarrow> ('s, 'a) effect" where
  "Effect_succeed x w = (Success x, w)"

definition Effect_fail :: "error \<Rightarrow> ('s, 'a) effect" where
  "Effect_fail e w = (Failure e, w)"

definition Effect_die :: "error \<Rightarrow> ('s, 'a) effect" where
  "Effect_die e w = (Die e, w)"

text \<open>
  \<open>const x = yield* m; rest\<close> inside \<open>Effect.gen\<close>. When \<open>m\<close> fails the generator is not
  resumed: the failure is the result of the whole block. In particular a \<open>try\<close>/\<open>catch\<close>
  statement around a \<open>yield*\<close> never sees the failure of the yielded effect.
\<close>

definition Effect_flatMap :: "('s, 'a) effect \<Rightarrow> ('a \<Rightarrow> ('s, 'b) effect) \<Rightarrow> ('s, 'b) effect" where
  "Effect_flatMap m rest w =
     (case m w of
        (Success x, w') \<Rightarrow> rest x w'
      | (Failure e, w') \<Rightarrow> (Failure e, w')
      | (Die e, w') \<Rightarrow> (Die e, w'))"

text \<open>
  The calls to \<open>Effect.log\<close> of the source are left out: they write to the logger, cannot
  fail, and no result depends on them. Where the argument of a log is built from a value
  that may fail to convert to a string (the table name in \<open>trainFromDatabase\<close>), that
  conversion is kept. The other log arguments interpolate strings and numbers only.
\<close>

definition Effect_map :: "('a \<Rightarrow> 'b) \<Rightarrow> ('s, 'a) effect \<Rightarrow> ('s, 'b) effect" where
  "Effect_map f m = Effect_flatMap m (\<lambda>x. Effect_succeed (f x))"

definition Effect_mapError :: "(error \<Rightarrow> error) \<Rightarrow> ('s, 'a) effect \<Rightarrow> ('s, 'a) effect" where
  "Effect_mapError f m w =
     (case m w of
        (Failure e, w') \<Rightarrow> (Failure (f e), w')
      | (r, w') \<Rightarrow> (r, w'))"

definition Effect_tryPromise :: "('s, 'a) promise \<Rightarrow> (error \<Rightarrow> error) \<Rightarrow> ('s, 'a) effect" where
  "Effect_tryPromise try catch w =
     (case try w of
        (Inl e, w') \<Rightarrow> (Failure (catch e), w')
      | (Inr x, w') \<Rightarrow> (Success x, w'))"

text \<open>
  \<open>Effect.forEach\<close> without a concurrency option: one element after the other, stopping
  at the first that does not succeed.
\<close>

fun Effect_forEach :: "'a list \<Rightarrow> ('a \<Rightarrow> ('s, 'b) effect) \<Rightarrow> ('s, 'b list) effect" where
  "Effect_forEach [] f = Effect_succeed []"
| "Effect_forEach (x # xs) f =
     Effect_flatMap (f x) (\<lambda>y. Effect_flatMap (Effect_forEach xs f) (\<lambda>ys. Effect_succeed (y # ys)))"

text \<open>A synchronous built-in that reads the environment and cannot throw.\<close>

definition builtin :: "('s \<Rightarrow> 'a \<times> 's) \<Rightarrow> ('a \<Rightarrow> call) \<Rightarrow> ('s, 'a) effect" where
  "builtin op c w =
     (case op (ext w) of (x, s') \<Rightarrow> (Success x, w\<lparr>ext := s', calls := calls w @ [c x]\<rparr>))"

section \<open>Schema Store: \<open>src/providers/postgres.ts\<close>\<close>

definition PostgresError :: "string \<Rightarrow> error option \<Rightarrow> error" where
  "PostgresError msg c = Error ''PostgresError'' msg c"

definition query :: "'s env \<Rightarrow> jsval \<Rightarrow> jsval list option \<Rightarrow> ('s, pg_result) effect" where
  "query E sql_text params =
     Effect_tryPromise
       (external_call (PoolQuery sql_text params) (pool_query E sql_text params))
       (\<lambda>error. PostgresError (''Query failed: '' @ Error_toString error) (Some error))"

definition getSchema_sql :: string where
  "getSchema_sql =
     ''SELECT table_name FROM information_schema.tables WHERE table_schema = ''
       @ [CHR 0x27] @ ''public'' @ [CHR 0x27]"

definition getSchema :: "'s env \<Rightarrow> ('s, jsval list) effect" where
  "getSchema E =
     Effect_flatMap (query E (JString getSchema_sql) None) (\<lambda>result.
       Effect_succeed (map (\<lambda>row. row_get row ''table_name'') (rows result)))"

definition getTableSchema_sql :: string where
  "getTableSchema_sql =
     ''SELECT \<newline>            column_name, \<newline>            data_type, \<newline>            is_nullable, \<newline>            column_default \<newline>          FROM information_schema.columns \<newline>          WHERE table_name = $1 \<newline>          ORDER BY ordinal_position''"

text \<open>
  The text rendered for one column row. The interpolations are converted from left to
  right, and the first one that throws ends the rendering.
\<close>

definition render_column :: "(number \<Rightarrow> string) \<Rightarrow> row \<Rightarrow> error + string" where
  "render_column num_to_string row =
     (case ToString num_to_string (row_get row ''column_name'') of
        Inl thrown \<Rightarrow> Inl thrown
      | Inr column_name \<Rightarrow>
     (case ToString num_to_string (row_get row ''data_type'') of
        Inl thrown \<Rightarrow> Inl thrown
      | Inr data_type \<Rightarrow>
     (case (if truthy (row_get row ''column_default'')
            then (case ToString num_to_string (row_get row ''column_default'') of
                    Inl thrown \<Rightarrow> Inl thrown
                  | Inr d \<Rightarrow> Inr ('' DEFAULT '' @ d))
            else Inr []) of
        Inl thrown \<Rightarrow> Inl thrown
      | Inr column_default \<Rightarrow>
          Inr (column_name @ '' '' @ data_type
               @ (if row_get row ''is_nullable'' = JString ''NO'' then '' NOT NULL'' else [])
               @ column_default))))"

text \<open>\<open>result.rows.map(...)\<close> with that rendering: the first row that throws ends the map.\<close>

fun render_columns :: "(number \<Rightarrow> string) \<Rightarrow> row list \<Rightarrow> error + string list" where
  "render_columns num_to_string [] = Inr []"
| "render_columns num_to_string (r # rs) =
     (case render_column num_to_string r of
        Inl thrown \<Rightarrow> Inl thrown
      | Inr c \<Rightarrow>
          (case render_columns num_to_string rs of
             Inl thrown \<Rightarrow> Inl thrown
           | Inr cs \<Rightarrow> Inr (c # cs)))"

text \<open>
  What the plain code of \<open>getTableSchema\<close> throws (a cell or a table name that cannot be
  converted to a string) is a defect of the effect.
\<close>

definition getTableSchema :: "'s env \<Rightarrow> jsval \<Rightarrow> ('s, string) effect" where
  "getTableSchema E tableName =
     Effect_flatMap (query E (JString getTableSchema_sql) (Some [tableName])) (\<lambda>result.
       case render_columns (Number_toString E) (rows result) of
         Inl thrown \<Rightarrow> Effect_die thrown
       | Inr rendered \<Rightarrow>
           let columns = join '', '' rendered
           in (case ToString (Number_toString E) tableName of
                 Inl thrown \<Rightarrow> Effect_die thrown
               | Inr table_name \<Rightarrow>
                   Effect_succeed (''CREATE TABLE '' @ table_name @ '' ('' @ columns @ '')'')))"

section \<open>Vector Index: \<open>src/providers/qdrant.ts\<close>\<close>

definition QdrantError :: "string \<Rightarrow> error option \<Rightarrow> error" where
  "QdrantError msg c = Error ''QdrantError'' msg c"

definition createCollection :: "'s env \<Rightarrow> QdrantConfig \<Rightarrow> number \<Rightarrow> ('s, unit) effect" where
  "createCollection E config vectorSize =
     Effect_tryPromise
       (await (external_call GetCollections (client_getCollections E)) (\<lambda>collections.
          let exists = list_ex (\<lambda>col. col_name col = collectionName config) collections
          in if \<not> exists
             then await
                    (external_call
                       (CreateCollection (collectionName config)
                          \<lparr>size = vectorSize, distance = ''Cosine''\<rparr>)
                       (client_createCollection E (collectionName config)
                          \<lparr>size = vectorSize, distance = ''Cosine''\<rparr>))
                    (\<lambda>u. resolve ())
             else resolve ()))
       (\<lambda>error. QdrantError (''Failed to create collection: '' @ Error_toString error) (Some error))"

definition upsertVectors :: "'s env \<Rightarrow> QdrantConfig \<Rightarrow> VectorRecord list \<Rightarrow> ('s, unit) effect" where
  "upsertVectors E config vectors =
     Effect_map (\<lambda>u. ())
       (Effect_tryPromise
          (let points = map (\<lambda>v. \<lparr>rid = rid v, vector = vector v, payload = payload v\<rparr>) vectors
           in external_call (Upsert (collectionName config) True points)
                (client_upsert E (collectionName config) True points))
          (\<lambda>error. QdrantError (''Failed to upsert vectors: '' @ Error_toString error) (Some error)))"

definition search ::
  "'s env \<Rightarrow> QdrantConfig \<Rightarrow> number list \<Rightarrow> number \<Rightarrow> jsval option \<Rightarrow> ('s, point list) effect" where
  "search E config v limit flt =
     Effect_map
       (\<lambda>result. map (\<lambda>p. \<lparr>point_id = point_id p, point_vector = point_vector p,
                             point_payload = point_payload p\<rparr>) result)
       (Effect_tryPromise
          (let searchParams =
                 \<lparr>sp_vector = v, sp_limit = limit, sp_with_payload = True, sp_filter = flt\<rparr>
           in external_call (Search (collectionName config) searchParams)
                (client_search E (collectionName config) searchParams))
          (\<lambda>error. QdrantError (''Search failed: '' @ Error_toString error) (Some error)))"

definition deleteCollection :: "'s env \<Rightarrow> QdrantConfig \<Rightarrow> ('s, unit) effect" where
  "deleteCollection E config =
     Effect_map (\<lambda>u. ())
       (Effect_tryPromise
          (external_call (DeleteCollection (collectionName config))
             (client_deleteCollection E (collectionName config)))
          (\<lambda>error. QdrantError (''Failed to delete collection: '' @ Error_toString error) (Some error)))"

section \<open>Generation Service: \<open>src/services/text-to-sql.ts\<close>\<close>

definition TextToSqlError :: "string \<Rightarrow> error option \<Rightarrow> error" where
  "TextToSqlError msg c = Error ''TextToSqlError'' msg c"

text \<open>
  \<open>similarSchemas.map((record) => record.payload.content)\<close>: the first payload that is
  \<open>undefined\<close> or \<open>null\<close> throws. This and the \<open>join\<close> that follows are plain code of
  the generator, outside any \<open>try\<close>: what they throw is a defect.
\<close>

fun payload_contents :: "point list \<Rightarrow> error + jsval list" where
  "payload_contents [] = Inr []"
| "payload_contents (p # ps) =
     (case get_prop (point_payload p) ''content'' of
        Inl e \<Rightarrow> Inl e
      | Inr c \<Rightarrow> (case payload_contents ps of Inl e \<Rightarrow> Inl e | Inr cs \<Rightarrow> Inr (c # cs)))"

text \<open>
  \<open>Array.prototype.join\<close>: \<open>undefined\<close> and \<open>null\<close> elements give the empty string, and an
  element that cannot be converted makes the join throw.
\<close>

definition Array_join :: "(number \<Rightarrow> string) \<Rightarrow> string \<Rightarrow> jsval list \<Rightarrow> error + string" where
  "Array_join num_to_string sep xs =
     (case ToString_elements num_to_string xs of
        Inl thrown \<Rightarrow> Inl thrown
      | Inr ss \<Rightarrow> Inr (join sep ss))"

definition make_prompt :: "string \<Rightarrow> string \<Rightarrow> string" where
  \<open>make_prompt schemaContext q =
     ''You are a SQL expert. Given the following database schema and a natural language question, generate a SQL query.\<newline>\<newline>          Database Schema:\<newline>          ''
     @ schemaContext
     @ ''\<newline>\<newline>          Question: ''
     @ q
     @ ''\<newline>\<newline>          Generate a SQL query that answers this question. Provide your response in the following JSON format:\<newline>          {\<newline>            "sql": "your SQL query here",\<newline>            "confidence": 0.95,\<newline>            "explanation": "Brief explanation of the query"\<newline>          }\<newline>\<newline>          Make sure the SQL is syntactically correct and follows PostgreSQL conventions.''\<close>

text \<open>
  The \<open>try\<close> block at the end of \<open>generateSql\<close>: \<open>JSON.parse\<close> and the three property
  reads are plain code, so what they throw is caught and becomes a \<open>TextToSqlError\<close>.
  Nothing checks that the three fields are present.
\<close>

definition parse_response :: "'s env \<Rightarrow> string \<Rightarrow> error + SqlResult" where
  "parse_response E txt =
     (case JSON_parse E txt of
        Inl e \<Rightarrow> Inl e
      | Inr parsed \<Rightarrow>
          (case get_prop parsed ''sql'' of
             Inl e \<Rightarrow> Inl e
           | Inr s \<Rightarrow>
               (case get_prop parsed ''confidence'' of
                  Inl e \<Rightarrow> Inl e
                | Inr c \<Rightarrow>
                    (case get_prop parsed ''explanation'' of
                       Inl e \<Rightarrow> Inl e
                     | Inr x \<Rightarrow> Inr \<lparr>sql = s, confidence = c, explanation = x\<rparr>))))"

definition generateSql ::
  "'s env \<Rightarrow> QdrantConfig \<Rightarrow> TextToSqlConfig \<Rightarrow> string \<Rightarrow> ('s, SqlResult) effect" where
  "generateSql E qconfig config q =
     Effect_flatMap
       (Effect_tryPromise
          (external_call (Embed (embeddingModel config) q) (ai_embed E (embeddingModel config) q))
          (\<lambda>error. TextToSqlError (''Failed to generate embedding: '' @ Error_toString error) (Some error)))
       (\<lambda>questionEmbedding.
     Effect_flatMap
       (Effect_mapError
          (\<lambda>error. TextToSqlError (''Vector search failed: '' @ Error_toString error) (Some error))
          (search E qconfig questionEmbedding (Finite 5) None))
       (\<lambda>similarSchemas.
     case payload_contents similarSchemas of
       Inl thrown \<Rightarrow> Effect_die thrown
     | Inr contents \<Rightarrow>
    (case Array_join (Number_toString E) ''\<newline>\<newline>'' contents of
       Inl thrown \<Rightarrow> Effect_die thrown
     | Inr schemaContext \<Rightarrow>
         let prompt = make_prompt schemaContext q;
             max_tokens = (case maxTokens config of None \<Rightarrow> Finite 1000 | Some n \<Rightarrow> n);
             temp = (case temperature config of None \<Rightarrow> Finite 0.1 | Some t \<Rightarrow> t)
         in
     Effect_flatMap
       (Effect_tryPromise
          (external_call (GenerateText (model config) prompt max_tokens temp)
             (ai_generateText E (model config) prompt max_tokens temp))
          (\<lambda>error. TextToSqlError (''SQL generation failed: '' @ Error_toString error) (Some error)))
       (\<lambda>result_text.
    (case parse_response E result_text of
       Inr r \<Rightarrow> Effect_succeed r
     | Inl error \<Rightarrow>
         Effect_fail
           (TextToSqlError (''Failed to parse AI response: '' @ Error_toString error) (Some error)))))))"

definition trainFromSchema ::
  "'s env \<Rightarrow> QdrantConfig \<Rightarrow> TextToSqlConfig \<Rightarrow> string \<Rightarrow> ('s, unit) effect" where
  "trainFromSchema E qconfig config ddl =
     Effect_flatMap
       (Effect_tryPromise
          (external_call (Embed (embeddingModel config) ddl) (ai_embed E (embeddingModel config) ddl))
          (\<lambda>error. TextToSqlError (''Failed to generate embedding: '' @ Error_toString error) (Some error)))
       (\<lambda>embedding.
     Effect_flatMap (builtin (crypto_randomUUID E) RandomUUID) (\<lambda>vectorId.
     Effect_flatMap (builtin (Date_toISOString E) NewDateISO) (\<lambda>timestamp.
       Effect_mapError
         (\<lambda>error. TextToSqlError (''Failed to store schema: '' @ Error_toString error) (Some error))
         (upsertVectors E qconfig
            [\<lparr>rid = vectorId,
              vector = embedding,
              payload =
                \<lparr>content = ddl,
                 metadata = Some [(''type'', JString ''schema''), (''timestamp'', JString timestamp)]\<rparr>\<rparr>]))))"

definition executeQuery :: "'s env \<Rightarrow> jsval \<Rightarrow> ('s, row list) effect" where
  "executeQuery E sql_text =
     Effect_flatMap
       (Effect_mapError
          (\<lambda>error. TextToSqlError (''Query execution failed: '' @ Error_toString error) (Some error))
          (query E sql_text None))
       (\<lambda>result. Effect_succeed (rows result))"

section \<open>Query Pipeline: \<open>src/services/query-pipeline.ts\<close>\<close>

definition QueryPipelineError :: "string \<Rightarrow> error option \<Rightarrow> error" where
  "QueryPipelineError msg c = Error ''QueryPipelineError'' msg c"

text \<open>
  The source wraps the body of \<open>validateSql\<close> in \<open>try { ... return true } catch { return false }\<close>.
  Two things can go wrong inside the \<open>try\<close> block. Building the statement text
  \<open>`EXPLAIN ${sql}`\<close> is plain code: when the conversion of \<open>sql\<close> throws, the \<open>catch\<close>
  branch is entered and \<open>validateSql\<close> answers \<open>false\<close> without any query. The \<open>yield*\<close> of the
  \<open>EXPLAIN\<close> query is different: the failure of a yielded effect is not thrown into the
  generator (see \<open>Effect_flatMap\<close>), so the \<open>catch\<close> branch is not entered and the
  failure leaves \<open>validateSql\<close> as the \<open>QueryPipelineError\<close> that \<open>mapError\<close> built.
\<close>

definition validateSql :: "'s env \<Rightarrow> jsval \<Rightarrow> ('s, bool) effect" where
  "validateSql E sql_text =
     (case ToString (Number_toString E) sql_text of
        Inl thrown \<Rightarrow> Effect_succeed False
      | Inr s \<Rightarrow>
          Effect_flatMap
            (Effect_mapError
               (\<lambda>error. QueryPipelineError (''SQL validation failed: '' @ Error_toString error) (Some error))
               (query E (JString (''EXPLAIN '' @ s)) None))
            (\<lambda>u. Effect_succeed True))"

definition explainQuery :: "'s env \<Rightarrow> jsval \<Rightarrow> ('s, row list) effect" where
  "explainQuery E sql_text =
     (case ToString (Number_toString E) sql_text of
        Inl thrown \<Rightarrow> Effect_die thrown
      | Inr s \<Rightarrow>
          Effect_flatMap
            (Effect_mapError
               (\<lambda>error. QueryPipelineError (''Query explanation failed: '' @ Error_toString error) (Some error))
               (query E (JString (''EXPLAIN ANALYZE '' @ s)) None))
            (\<lambda>result. Effect_succeed (rows result)))"

text \<open>
  \<open>sqlResult.confidence < config.minConfidence\<close>: the right operand is a number, so the
  left operand is converted to a number and the two are compared as numbers. The
  conversion can throw.
\<close>

definition confidence_below :: "'s env \<Rightarrow> jsval \<Rightarrow> number \<Rightarrow> error + bool" where
  "confidence_below E c m =
     (case ToNumber (Number_toString E) (StringToNumber E) c of
        Inl thrown \<Rightarrow> Inl thrown
      | Inr x \<Rightarrow> Inr (number_lt x m))"

text \<open>
  In \<open>askQuestion\<close> the comparison and the two error messages are plain code of the
  generator: what they throw is a defect.
\<close>

definition askQuestion ::
  "'s env \<Rightarrow> QdrantConfig \<Rightarrow> TextToSqlConfig \<Rightarrow> QueryPipelineConfig \<Rightarrow> string
     \<Rightarrow> ('s, QueryResult) effect" where
  "askQuestion E qconfig tconfig config q =
     Effect_flatMap (builtin (Date_now E) DateNow) (\<lambda>startTime.
     Effect_flatMap
       (Effect_mapError
          (\<lambda>error. QueryPipelineError (''SQL generation failed: '' @ Error_toString error) (Some error))
          (generateSql E qconfig tconfig q))
       (\<lambda>sqlResult.
     case confidence_below E (confidence sqlResult) (minConfidence config) of
       Inl thrown \<Rightarrow> Effect_die thrown
     | Inr True \<Rightarrow>
         (case ToString (Number_toString E) (confidence sqlResult) of
            Inl thrown \<Rightarrow> Effect_die thrown
          | Inr shown \<Rightarrow>
              Effect_fail
                (QueryPipelineError
                   (''Generated SQL has low confidence: '' @ shown
                      @ ''. Minimum required: '' @ Number_toString E (minConfidence config))
                   None))
     | Inr False \<Rightarrow>
     Effect_flatMap (validateSql E (sql sqlResult)) (\<lambda>isValid.
     if \<not> isValid
     then (case ToString (Number_toString E) (sql sqlResult) of
             Inl thrown \<Rightarrow> Effect_die thrown
           | Inr shown \<Rightarrow>
               Effect_fail (QueryPipelineError (''Generated SQL is invalid: '' @ shown) None))
     else
     Effect_flatMap
       (if \<not> dryRun config
        then Effect_mapError
               (\<lambda>error. QueryPipelineError (''Query execution failed: '' @ Error_toString error) (Some error))
               (executeQuery E (sql sqlResult))
        else Effect_succeed [])
       (\<lambda>res.
     Effect_flatMap (builtin (Date_now E) DateNow) (\<lambda>endTime.
       Effect_succeed
         \<lparr>question = q,
          qr_sql = sql sqlResult,
          qr_confidence = confidence sqlResult,
          qr_explanation = explanation sqlResult,
          results = res,
          executionTime = endTime - startTime\<rparr>)))))"

section \<open>Training Orchestrator: \<open>src/train.ts\<close>\<close>

definition TrainingError :: "string \<Rightarrow> error option \<Rightarrow> error" where
  "TrainingError msg c = Error ''TrainingError'' msg c"

definition vectorSize :: number where
  "vectorSize = Finite 1536"

text \<open>
  The body of the loop of \<open>trainFromDatabase\<close>. It starts with
  \<open>Effect.log(`Training on table: ${table}`)\<close>: the log itself is left out, but its argument
  is built by plain code, and a table name that cannot be converted to a string throws
  there, before the DDL is fetched.
\<close>

definition train_table ::
  "'s env \<Rightarrow> QdrantConfig \<Rightarrow> TextToSqlConfig \<Rightarrow> jsval \<Rightarrow> ('s, unit) effect" where
  "train_table E qconfig tconfig table =
     (case ToString (Number_toString E) table of
        Inl thrown \<Rightarrow> Effect_die thrown
      | Inr shown \<Rightarrow>
     Effect_flatMap
       (Effect_mapError
          (\<lambda>error. TrainingError (''Failed to get table schema: '' @ Error_toString error) (Some error))
          (getTableSchema E table))
       (\<lambda>ddl.
          Effect_mapError
            (\<lambda>error. TrainingError (''Failed to train schema: '' @ Error_toString error) (Some error))
            (trainFromSchema E qconfig tconfig ddl)))"

definition trainFromDatabase :: "'s env \<Rightarrow> QdrantConfig \<Rightarrow> TextToSqlConfig \<Rightarrow> ('s, unit) effect" where
  "trainFromDatabase E qconfig tconfig =
     Effect_flatMap
       (Effect_mapError
          (\<lambda>error. TrainingError (''Failed to get schema: '' @ Error_toString error) (Some error))
          (getSchema E))
       (\<lambda>tables.
     Effect_flatMap
       (Effect_mapError
          (\<lambda>error. TrainingError (''Failed to create collection: '' @ Error_toString error) (Some error))
          (createCollection E qconfig vectorSize))
       (\<lambda>u.
     Effect_flatMap (Effect_forEach tables (train_table E qconfig tconfig)) (\<lambda>us.
       Effect_succeed ())))"

definition trainFromDdl ::
  "'s env \<Rightarrow> QdrantConfig \<Rightarrow> TextToSqlConfig \<Rightarrow> string \<Rightarrow> ('s, unit) effect" where
  "trainFromDdl E qconfig tconfig ddl =
     Effect_flatMap
       (Effect_mapError
          (\<lambda>error. TrainingError (''Failed to create collection: '' @ Error_toString error) (Some error))
          (createCollection E qconfig vectorSize))
       (\<lambda>u.
     Effect_flatMap
       (Effect_mapError
          (\<lambda>error. TrainingError (''Failed to train schema: '' @ Error_toString error) (Some error))
          (trainFromSchema E qconfig tconfig ddl))
       (\<lambda>u. Effect_succeed ()))"

definition train_ddl ::
  "'s env \<Rightarrow> QdrantConfig \<Rightarrow> TextToSqlConfig \<Rightarrow> string \<Rightarrow> ('s, unit) effect" where
  "train_ddl E qconfig tconfig ddl =
     Effect_mapError
       (\<lambda>error. TrainingError (''Failed to train schema: '' @ Error_toString error) (Some error))
       (trainFromSchema E qconfig tconfig ddl)"

definition trainFromDdlArray ::
  "'s env \<Rightarrow> QdrantConfig \<Rightarrow> TextToSqlConfig \<Rightarrow> string list \<Rightarrow> ('s, unit) effect" where
  "trainFromDdlArray E qconfig tconfig ddls =
     Effect_flatMap
       (Effect_mapError
          (\<lambda>error. TrainingError (''Failed to create collection: '' @ Error_toString error) (Some error))
          (createCollection E qconfig vectorSize))
       (\<lambda>u.
     Effect_flatMap (Effect_forEach ddls (train_ddl E qconfig tconfig)) (\<lambda>us.
       Effect_succeed ()))"

section \<open>Observing a run\<close>

text \<open>The calls made between two worlds of one run.\<close>

definition new_calls :: "'s world \<Rightarrow> 's world \<Rightarrow> call list" where
  "new_calls w w' = drop (length (calls w)) (calls w')"

text \<open>The statements sent to the Schema Store, in order.\<close>

fun pool_queries :: "call list \<Rightarrow> jsval list" where
  "pool_queries [] = []"
| "pool_queries (PoolQuery q params # cs) = q # pool_queries cs"
| "pool_queries (c # cs) = pool_queries cs"

text \<open>
  The parameters sent along with the statements, in order. The only statement of the
  training runs that has parameters is the one of \<open>getTableSchema\<close>, whose single parameter
  is the table, so within a training run these are the tables whose columns were asked for.
\<close>

fun pool_params :: "call list \<Rightarrow> jsval list" where
  "pool_params [] = []"
| "pool_params (PoolQuery q (Some ps) # cs) = ps @ pool_params cs"
| "pool_params (c # cs) = pool_params cs"

text \<open>
  The texts sent to the embedding model, in order. \<open>trainFromSchema\<close> starts with exactly
  one such call, carrying its DDL, so within a training run these are the DDLs on which
  the embed-and-store step was invoked.
\<close>

fun embedded :: "call list \<Rightarrow> string list" where
  "embedded [] = []"
| "embedded (Embed m v # cs) = v # embedded cs"
| "embedded (c # cs) = embedded cs"

text \<open>The batches of records sent to the Vector Index, in order.\<close>

fun upserted :: "call list \<Rightarrow> VectorRecord list list" where
  "upserted [] = []"
| "upserted (Upsert c b points # cs) = points # upserted cs"
| "upserted (c # cs) = upserted cs"

text \<open>The identifiers that \<open>crypto.randomUUID\<close> returned, in order.\<close>

fun uuids :: "call list \<Rightarrow> string list" where
  "uuids [] = []"
| "uuids (RandomUUID u # cs) = u # uuids cs"
| "uuids (c # cs) = uuids cs"

text \<open>The number of collection listings: \<open>createCollection\<close> starts with exactly one.\<close>

definition listings :: "call list \<Rightarrow> nat" where
  "listings cs = count_list cs GetCollections"

text \<open>The collections that the run asked the Vector Index to create.\<close>

fun created :: "call list \<Rightarrow> (string \<times> collection_config) list" where
  "created [] = []"
| "created (CreateCollection n c # cs) = (n, c) # created cs"
| "created (c # cs) = created cs"

section \<open>Test doubles: \<open>test/utils/test-helpers.ts\<close>\<close>

text \<open>
  \<open>MockQdrantClient\<close> keeps the collections it was asked to create and, per collection
  name, the points it was given. The remaining fields feed the stubs for the clock and for
  the UUID generator.
\<close>

record mock_state =
  collections :: "(string \<times> collection_config) list"
  vectors :: "string \<rightharpoonup> VectorRecord list"
  uuid_queue :: "string list"
  clock :: int

definition Mock_getCollections :: "(mock_state, collection_description list) external" where
  "Mock_getCollections s =
     (Inr (map (\<lambda>(n, c). \<lparr>col_name = n, col_config = Some c\<rparr>) (collections s)), s)"

definition Mock_createCollection :: "string \<Rightarrow> collection_config \<Rightarrow> (mock_state, unit) external" where
  "Mock_createCollection n config s =
     (Inr (), s\<lparr>collections := collections s @ [(n, config)], vectors := (vectors s)(n \<mapsto> [])\<rparr>)"

definition Mock_upsert :: "string \<Rightarrow> bool \<Rightarrow> VectorRecord list \<Rightarrow> (mock_state, unit) external" where
  "Mock_upsert n wait points s =
     (let vs = (case vectors s n of None \<Rightarrow> [] | Some xs \<Rightarrow> xs);
          updatedVectors = vs @ points
      in (Inr (), s\<lparr>vectors := (vectors s)(n \<mapsto> updatedVectors)\<rparr>))"

text \<open>
  \<open>xs.slice(0, n)\<close> for a number \<open>n\<close>: \<open>n\<close> is truncated toward zero, and a negative end
  counts from the end of the list.
\<close>

fun slice0 :: "number \<Rightarrow> 'a list \<Rightarrow> 'a list" where
  "slice0 (Finite r) xs =
     (if 0 \<le> r then take (nat \<lfloor>r\<rfloor>) xs
      else if nat \<lfloor>- r\<rfloor> = 0 then []
      else take (length xs - nat \<lfloor>- r\<rfloor>) xs)"
| "slice0 PosInfinity xs = xs"
| "slice0 n xs = []"

definition payload_value :: "payload \<Rightarrow> jsval" where
  "payload_value p =
     JObject
       ((''content'', JString (content p))
        # (case metadata p of None \<Rightarrow> [] | Some m \<Rightarrow> [(''metadata'', JObject m)]))"

definition Mock_search :: "string \<Rightarrow> search_params \<Rightarrow> (mock_state, point list) external" where
  "Mock_search n params s =
     (let vs = (case vectors s n of None \<Rightarrow> [] | Some xs \<Rightarrow> xs);
          lim = (if truthy (JNumber (sp_limit params)) then sp_limit params else Finite 10)
      in (Inr (map (\<lambda>p. \<lparr>point_id = JString (rid p),
                           point_vector = JArray (map JNumber (vector p)),
                           point_payload = payload_value (payload p)\<rparr>)
                 (slice0 lim vs)),
          s))"

definition Mock_deleteCollection :: "string \<Rightarrow> (mock_state, unit) external" where
  "Mock_deleteCollection n s =
     (Inr (), s\<lparr>collections := filter (\<lambda>c. fst c \<noteq> n) (collections s),
                 vectors := (vectors s)(n := None)\<rparr>)"

text \<open>
  Stubs in the manner of the \<open>vi.fn()\<close> mocks of the test suites: the database answers
  each statement and its parameters as \<open>pg\<close> says, the embedding model answers each text as \<open>emb\<close> says, and
  the completion model always answers \<open>completion\<close>.
\<close>

definition stub_JSON_parse :: "string \<Rightarrow> error + jsval" where
  \<open>stub_JSON_parse txt =
     (if txt = ''{"sql":"SELECT * FROM orders","confidence":0.85,"explanation":"Gets all orders from the orders table"}''
      then Inr (JObject [(''sql'', JString ''SELECT * FROM orders''),
                         (''confidence'', JNumber (Finite 0.85)),
                         (''explanation'', JString ''Gets all orders from the orders table'')])
      else if txt = ''{"sql":"SELECT * FROM unknown_table","confidence":0.3,"explanation":"Unable to determine table structure"}''
      then Inr (JObject [(''sql'', JString ''SELECT * FROM unknown_table''),
                         (''confidence'', JNumber (Finite 0.3)),
                         (''explanation'', JString ''Unable to determine table structure'')])
      else if txt = ''{"sql":"SELECT 1","confidence":1.5,"explanation":"one"}''
      then Inr (JObject [(''sql'', JString ''SELECT 1''),
                         (''confidence'', JNumber (Finite 1.5)),
                         (''explanation'', JString ''one'')])
      else if txt = ''{"sql":"SELECT * FROM orders","explanation":"Gets all orders from the orders table"}''
      then Inr (JObject [(''sql'', JString ''SELECT * FROM orders''),
                         (''explanation'', JString ''Gets all orders from the orders table'')])
      else if txt = ''{}'' then Inr (JObject [])
      else if txt = ''null'' then Inr JNull
      else Inl (Error ''SyntaxError'' ''Unexpected token'' None))\<close>

definition stub_Number_toString :: "number \<Rightarrow> string" where
  "stub_Number_toString n =
     (if n = Finite 0.3 then ''0.3''
      else if n = Finite 0.7 then ''0.7''
      else if n = Finite 0.85 then ''0.85''
      else if n = Finite 1.5 then ''1.5''
      else ''NaN'')"

definition stub_env ::
  "(jsval \<Rightarrow> jsval list option \<Rightarrow> error + row list) \<Rightarrow> (string \<Rightarrow> error + number list)
     \<Rightarrow> error + string \<Rightarrow> mock_state env" where
  "stub_env pg emb completion =
     \<lparr>pool_query =
        (\<lambda>q params s. (case pg q params of Inl e \<Rightarrow> Inl e | Inr r \<Rightarrow> Inr \<lparr>rows = r\<rparr>, s)),
      client_getCollections = Mock_getCollections,
      client_createCollection = Mock_createCollection,
      client_upsert = Mock_upsert,
      client_search = Mock_search,
      client_deleteCollection = Mock_deleteCollection,
      ai_embed = (\<lambda>m v s. (emb v, s)),
      ai_generateText = (\<lambda>m p mt t s. (completion, s)),
      crypto_randomUUID =
        (\<lambda>s. case uuid_queue s of [] \<Rightarrow> ([], s) | u # us \<Rightarrow> (u, s\<lparr>uuid_queue := us\<rparr>)),
      Date_now = (\<lambda>s. (clock s, s\<lparr>clock := clock s + 1\<rparr>)),
      Date_toISOString = (\<lambda>s. (''2024-01-01T00:00:00.000Z'', s)),
      JSON_parse = stub_JSON_parse,
      Number_toString = stub_Number_toString,
      StringToNumber = (\<lambda>s. NaN)\<rparr>"

definition mockQdrantConfig :: QdrantConfig where
  "mockQdrantConfig = \<lparr>url = ''http://localhost:6333'', apiKey = None, collectionName = ''test_collection''\<rparr>"

definition mockTextToSqlConfig :: TextToSqlConfig where
  "mockTextToSqlConfig =
     \<lparr>model = ''gpt-4'', embeddingModel = ''text-embedding-3-small'',
      maxTokens = Some (Finite 1000), temperature = Some (Finite 0.1)\<rparr>"

definition mockQueryPipelineConfig :: QueryPipelineConfig where
  "mockQueryPipelineConfig = \<lparr>minConfidence = Finite 0.7, dryRun = False, maxRetries = Finite 3\<rparr>"

text \<open>A fresh mock with nothing stored, and one that already holds the test collection.\<close>

definition empty_world :: "mock_state world" where
  "empty_world =
     \<lparr>ext = \<lparr>collections = [], vectors = Map.empty, uuid_queue = [''id-1'', ''id-2'', ''id-3''], clock = 1000\<rparr>,
      calls = []\<rparr>"

definition trained_world :: "number \<Rightarrow> mock_state world" where
  "trained_world n =
     \<lparr>ext = \<lparr>collections = [(''test_collection'', \<lparr>size = n, distance = ''Cosine''\<rparr>)],
             vectors = [''test_collection'' \<mapsto> [] ],
             uuid_queue = [''id-1'', ''id-2'', ''id-3''],
             clock = 1000\<rparr>,
      calls = []\<rparr>"

text \<open>The environments and configurations of the example runs.\<close>

definition test_embedding :: "number list" where
  "test_embedding = [Finite 0.1, Finite 0.2, Finite 0.3]"

definition low_confidence_env :: "mock_state env" where
  \<open>low_confidence_env =
     stub_env (\<lambda>q p. Inr []) (\<lambda>v. Inr test_embedding)
       (Inr ''{"sql":"SELECT * FROM unknown_table","confidence":0.3,"explanation":"Unable to determine table structure"}'')\<close>

definition orders_env :: "mock_state env" where
  \<open>orders_env =
     stub_env (\<lambda>q p. Inr [ [(''QUERY PLAN'', JString ''Seq Scan on orders'')] ]) (\<lambda>v. Inr test_embedding)
       (Inr ''{"sql":"SELECT * FROM orders","confidence":0.85,"explanation":"Gets all orders from the orders table"}'')\<close>

definition syntax_error_env :: "mock_state env" where
  \<open>syntax_error_env =
     stub_env (\<lambda>q p. Inl (Error ''Error'' ''syntax error at or near "SELCT"'' None)) (\<lambda>v. Inr test_embedding)
       (Inr ''{}'')\<close>

definition dryRunConfig :: QueryPipelineConfig where
  "dryRunConfig = mockQueryPipelineConfig\<lparr>dryRun := True\<rparr>"

definition invalid_vector_record :: VectorRecord where
  "invalid_vector_record =
     \<lparr>rid = ''invalid_vector'', vector = replicate 512 (Finite 0.1),
      payload = \<lparr>content = ''test'', metadata = Some []\<rparr>\<rparr>"

definition permission_denied_env :: "mock_state env" where
  "permission_denied_env =
     stub_env (\<lambda>q p. Inl (Error ''Error'' ''Permission denied for schema information_schema'' None))
       (\<lambda>v. Inr test_embedding) (Inr ''{}'')"

definition users_env :: "mock_state env" where
  "users_env =
     stub_env
       (\<lambda>q p. if q = JString getSchema_sql
            then Inr [ [(''table_name'', JString ''users'')] ]
            else Inr [ [(''column_name'', JString ''id''), (''data_type'', JString ''integer''),
                       (''is_nullable'', JString ''NO''), (''column_default'', JNull)] ])
       (\<lambda>v. Inr test_embedding) (Inr ''{}'')"

definition ddlArray :: "string list" where
  "ddlArray =
     [''CREATE TABLE users (id SERIAL PRIMARY KEY);'',
      ''CREATE TABLE orders (id SERIAL PRIMARY KEY);'',
      ''CREATE TABLE products (id SERIAL PRIMARY KEY);'']"

definition users_ddl :: string where
  "users_ddl = ''CREATE TABLE users (id SERIAL PRIMARY KEY);''"

definition users_record :: "string \<Rightarrow> VectorRecord" where
  "users_record u =
     \<lparr>rid = u, vector = test_embedding,
      payload = \<lparr>content = users_ddl,
                 metadata = Some [(''type'', JString ''schema''),
                                  (''timestamp'', JString ''2024-01-01T00:00:00.000Z'')]\<rparr>\<rparr>"

definition embedding_fails_env :: "mock_state env" where
  "embedding_fails_env =
     stub_env (\<lambda>q p. Inr [])
       (\<lambda>v. if v = ''CREATE TABLE orders (id SERIAL PRIMARY KEY);''
            then Inl (Error ''Error'' ''Vector embedding failed for complex table structure'' None)
            else Inr test_embedding)
       (Inr ''{}'')"

definition embedding_failure :: error where
  "embedding_failure =
     TrainingError
       ''Failed to train schema: TextToSqlError: Failed to generate embedding: Error: Vector embedding failed for complex table structure''
       (Some (TextToSqlError
                ''Failed to generate embedding: Error: Vector embedding failed for complex table structure''
                (Some (Error ''Error'' ''Vector embedding failed for complex table structure'' None))))"

definition discovery_failure :: error where
  "discovery_failure =
     TrainingError
       ''Failed to get schema: PostgresError: Query failed: Error: Permission denied for schema information_schema''
       (Some (PostgresError
                ''Query failed: Error: Permission denied for schema information_schema''
                (Some (Error ''Error'' ''Permission denied for schema information_schema'' None))))"

definition completion_env :: "string \<Rightarrow> mock_state env" where
  "completion_env txt = stub_env (\<lambda>q p. Inr []) (\<lambda>v. Inr test_embedding) (Inr txt)"

definition out_of_range_completion :: string where
  \<open>out_of_range_completion = ''{"sql":"SELECT 1","confidence":1.5,"explanation":"one"}''\<close>

text \<open>The completion of \<open>orders_env\<close> without its \<open>confidence\<close> field.\<close>

definition no_confidence_completion :: string where
  \<open>no_confidence_completion =
     ''{"sql":"SELECT * FROM orders","explanation":"Gets all orders from the orders table"}''\<close>

text \<open>
  A Vector Index that cannot be reached (the test "should handle server errors during
  collection creation"), and the failure of \<open>trainFromDdl\<close> then.
\<close>

definition server_error :: error where
  "server_error = Error ''Error'' ''Connection refused - Qdrant server unavailable'' None"

definition index_unavailable_env :: "mock_state env" where
  "index_unavailable_env = users_env\<lparr>client_getCollections := (\<lambda>s. (Inl server_error, s))\<rparr>"

definition index_failure :: error where
  "index_failure =
     TrainingError
       ''Failed to create collection: QdrantError: Failed to create collection: Error: Connection refused - Qdrant server unavailable''
       (Some (QdrantError
                ''Failed to create collection: Error: Connection refused - Qdrant server unavailable''
                (Some server_error)))"

text \<open>
  A database with the tables \<open>users\<close> and \<open>orders\<close>, in two variants: one where the columns
  of \<open>orders\<close> cannot be read, and one where the embedding of the DDL of \<open>orders\<close> fails.
\<close>

definition two_tables_pg :: "jsval \<Rightarrow> jsval list option \<Rightarrow> error + row list" where
  "two_tables_pg q p =
     (if q = JString getSchema_sql
      then Inr [ [(''table_name'', JString ''users'')], [(''table_name'', JString ''orders'')] ]
      else Inr [ [(''column_name'', JString ''id''), (''data_type'', JString ''integer''),
                  (''is_nullable'', JString ''NO''), (''column_default'', JNull)] ])"

definition orders_unreadable_env :: "mock_state env" where
  "orders_unreadable_env =
     stub_env
       (\<lambda>q p. if p = Some [JString ''orders'']
            then Inl (Error ''Error'' ''Database connection failed'' None)
            else two_tables_pg q p)
       (\<lambda>v. Inr test_embedding) (Inr ''{}'')"

definition orders_unreadable_failure :: error where
  "orders_unreadable_failure =
     TrainingError
       ''Failed to get table schema: PostgresError: Query failed: Error: Database connection failed''
       (Some (PostgresError ''Query failed: Error: Database connection failed''
                (Some (Error ''Error'' ''Database connection failed'' None))))"

definition orders_embedding_fails_env :: "mock_state env" where
  "orders_embedding_fails_env =
     stub_env two_tables_pg
       (\<lambda>v. if v = ''CREATE TABLE orders (id integer NOT NULL)''
            then Inl (Error ''Error'' ''OpenAI embedding API quota exceeded'' None)
            else Inr test_embedding)
       (Inr ''{}'')"

definition orders_embedding_failure :: error where
  "orders_embedding_failure =
     TrainingError
       ''Failed to train schema: TextToSqlError: Failed to generate embedding: Error: OpenAI embedding API quota exceeded''
       (Some (TextToSqlError ''Failed to generate embedding: Error: OpenAI embedding API quota exceeded''
                (Some (Error ''Error'' ''OpenAI embedding API quota exceeded'' None))))"

section \<open>Basic facts about single calls\<close>

lemma query_run:
  "query E q p w =
     (case pool_query E q p (ext w) of
        (Inl e, s') \<Rightarrow>
          (Failure (PostgresError (''Query failed: '' @ Error_toString e) (Some e)),
           w\<lparr>ext := s', calls := calls w @ [PoolQuery q p]\<rparr>)
      | (Inr r, s') \<Rightarrow> (Success r, w\<lparr>ext := s', calls := calls w @ [PoolQuery q p]\<rparr>))"
  by (simp add: query_def Effect_tryPromise_def external_call_def split: prod.splits sum.splits)

lemma query_calls:
  "query E q p w = (r, w') \<Longrightarrow> calls w' = calls w @ [PoolQuery q p] \<and> (\<forall>e. r \<noteq> Die e)"
  by (auto simp: query_run split: prod.splits sum.splits)

lemma createCollection_run:
  "createCollection E config vs w =
     (case client_getCollections E (ext w) of
        (Inl e, s1) \<Rightarrow>
          (Failure (QdrantError (''Failed to create collection: '' @ Error_toString e) (Some e)),
           w\<lparr>ext := s1, calls := calls w @ [GetCollections]\<rparr>)
      | (Inr cols, s1) \<Rightarrow>
          if list_ex (\<lambda>col. col_name col = collectionName config) cols
          then (Success (), w\<lparr>ext := s1, calls := calls w @ [GetCollections]\<rparr>)
          else (case client_createCollection E (collectionName config)
                       \<lparr>size = vs, distance = ''Cosine''\<rparr> s1 of
                  (Inl e, s2) \<Rightarrow>
                    (Failure (QdrantError (''Failed to create collection: '' @ Error_toString e) (Some e)),
                     w\<lparr>ext := s2,
                       calls := calls w @ [GetCollections,
                         CreateCollection (collectionName config) \<lparr>size = vs, distance = ''Cosine''\<rparr>]\<rparr>)
                | (Inr u, s2) \<Rightarrow>
                    (Success (),
                     w\<lparr>ext := s2,
                       calls := calls w @ [GetCollections,
                         CreateCollection (collectionName config) \<lparr>size = vs, distance = ''Cosine''\<rparr>]\<rparr>)))"
  by (simp add: createCollection_def Effect_tryPromise_def external_call_def await_def resolve_def
        Let_def split: prod.splits sum.splits)

lemma copy_points [simp]:
  "map (\<lambda>v::VectorRecord. \<lparr>rid = rid v, vector = vector v, payload = payload v\<rparr>) vs = vs"
  by (induction vs) simp_all

lemma upsertVectors_run:
  "upsertVectors E config vs w =
     (case client_upsert E (collectionName config) True vs (ext w) of
        (Inl e, s') \<Rightarrow>
          (Failure (QdrantError (''Failed to upsert vectors: '' @ Error_toString e) (Some e)),
           w\<lparr>ext := s', calls := calls w @ [Upsert (collectionName config) True vs]\<rparr>)
      | (Inr u, s') \<Rightarrow>
          (Success (), w\<lparr>ext := s', calls := calls w @ [Upsert (collectionName config) True vs]\<rparr>))"
  by (simp add: upsertVectors_def Effect_map_def Effect_flatMap_def Effect_succeed_def
        Effect_tryPromise_def external_call_def Let_def split: prod.splits sum.splits)


lemma new_calls_append: "calls w' = calls w @ d \<Longrightarrow> new_calls w w' = d"
  by (simp add: new_calls_def)

lemma search_run:
  "search E config v limit flt w =
     (case client_search E (collectionName config)
             \<lparr>sp_vector = v, sp_limit = limit, sp_with_payload = True, sp_filter = flt\<rparr> (ext w) of
        (Inl e, s') \<Rightarrow>
          (Failure (QdrantError (''Search failed: '' @ Error_toString e) (Some e)),
           w\<lparr>ext := s', calls := calls w @ [Search (collectionName config)
             \<lparr>sp_vector = v, sp_limit = limit, sp_with_payload = True, sp_filter = flt\<rparr>]\<rparr>)
      | (Inr ps, s') \<Rightarrow>
          (Success ps,
           w\<lparr>ext := s', calls := calls w @ [Search (collectionName config)
             \<lparr>sp_vector = v, sp_limit = limit, sp_with_payload = True, sp_filter = flt\<rparr>]\<rparr>))"
proof -
  have copy: "map (\<lambda>p::point. \<lparr>point_id = point_id p, point_vector = point_vector p,
                                 point_payload = point_payload p\<rparr>) ps = ps" for ps
    by (induction ps) simp_all
  show ?thesis
    by (simp add: search_def Effect_map_def Effect_flatMap_def Effect_succeed_def
          Effect_tryPromise_def external_call_def Let_def copy split: prod.splits sum.splits)
qed

lemma generateSql_calls:
  assumes "generateSql E qc tc q w = (r, w')"
  shows "\<exists>d. calls w' = calls w @ d \<and> pool_queries d = []"
  using assms
  by (auto simp: generateSql_def search_run Effect_flatMap_def Effect_mapError_def
        Effect_tryPromise_def external_call_def Effect_die_def Effect_succeed_def Effect_fail_def
        Let_def split: prod.splits sum.splits exit.splits)


lemma builtin_run:
  "builtin op c w = (case op (ext w) of (x, s') \<Rightarrow> (Success x, w\<lparr>ext := s', calls := calls w @ [c x]\<rparr>))"
  by (simp add: builtin_def)

lemma validateSql_run:
  "validateSql E v w =
     (case ToString (Number_toString E) v of
        Inl thrown \<Rightarrow> (Success False, w)
      | Inr s \<Rightarrow>
          (case pool_query E (JString (''EXPLAIN '' @ s)) None (ext w) of
             (Inl e, s') \<Rightarrow>
               (Failure
                  (QueryPipelineError
                     (''SQL validation failed: ''
                        @ Error_toString (PostgresError (''Query failed: '' @ Error_toString e) (Some e)))
                     (Some (PostgresError (''Query failed: '' @ Error_toString e) (Some e)))),
                w\<lparr>ext := s', calls := calls w @ [PoolQuery (JString (''EXPLAIN '' @ s)) None]\<rparr>)
           | (Inr r, s') \<Rightarrow>
               (Success True,
                w\<lparr>ext := s', calls := calls w @ [PoolQuery (JString (''EXPLAIN '' @ s)) None]\<rparr>)))"
  by (simp add: validateSql_def query_run Effect_flatMap_def Effect_mapError_def Effect_succeed_def
        split: prod.splits sum.splits)

text \<open>
  \<open>validateSql\<close> answers \<open>false\<close> only when the statement text cannot be built, and then
  without a query; a statement that is a string is never answered with \<open>false\<close>.
\<close>

lemma validateSql_false:
  "validateSql E v w = (Success False, w') \<longleftrightarrow>
     (\<exists>thrown. ToString (Number_toString E) v = Inl thrown) \<and> w' = w"
  by (auto simp: validateSql_run split: prod.splits sum.splits)

lemma validateSql_true:
  assumes "validateSql E v w = (Success True, w')"
  shows "\<exists>s. ToString (Number_toString E) v = Inr s
           \<and> calls w' = calls w @ [PoolQuery (JString (''EXPLAIN '' @ s)) None]"
  using assms by (auto simp: validateSql_run split: prod.splits sum.splits)

text \<open>The only error that a conversion to a string or to a number throws.\<close>

lemma ToString_throws:
  "ToString n v = Inl e \<Longrightarrow> e = cannot_convert"
  "ToString_elements n vs = Inl e \<Longrightarrow> e = cannot_convert"
  by (induction n v and n vs rule: ToString_ToString_elements.induct)
     (auto split: sum.splits if_splits)

lemma ToNumber_throws: "ToNumber n p v = Inl e \<Longrightarrow> e = cannot_convert"
  by (cases v) (auto split: sum.splits if_splits dest: ToString_throws)

text \<open>A value that compares below a number can be printed.\<close>

lemma confidence_below_prints:
  assumes "confidence_below E c m = Inr True"
  shows "\<exists>s. ToString (Number_toString E) c = Inr s"
  using assms
  by (cases c) (auto simp: confidence_below_def split: sum.splits if_splits)

lemmas eval_defs =
  askQuestion_def generateSql_def validateSql_def executeQuery_def query_def search_def
  Effect_flatMap_def Effect_mapError_def Effect_fail_def Effect_succeed_def Effect_map_def
  Effect_tryPromise_def Effect_die_def external_call_def builtin_def
  stub_env_def Mock_search_def stub_JSON_parse_def stub_Number_toString_def parse_response_def
  Array_join_def make_prompt_def confidence_below_def
  mockQdrantConfig_def mockTextToSqlConfig_def mockQueryPipelineConfig_def empty_world_def
  QueryPipelineError_def TextToSqlError_def PostgresError_def QdrantError_def Error_toString_def
  new_calls_def Let_def

lemma trainFromSchema_run:
  "trainFromSchema E qc tc ddl w =
     (case ai_embed E (embeddingModel tc) ddl (ext w) of
        (Inl e, s1) \<Rightarrow>
          (Failure (TextToSqlError (''Failed to generate embedding: '' @ Error_toString e) (Some e)),
           w\<lparr>ext := s1, calls := calls w @ [Embed (embeddingModel tc) ddl]\<rparr>)
      | (Inr emb, s1) \<Rightarrow>
          (case crypto_randomUUID E s1 of (u, s2) \<Rightarrow>
           (case Date_toISOString E s2 of (t, s3) \<Rightarrow>
           let r = \<lparr>rid = u, vector = emb,
                    payload = \<lparr>content = ddl,
                      metadata = Some [(''type'', JString ''schema''), (''timestamp'', JString t)]\<rparr>\<rparr>;
               cs = calls w @ [Embed (embeddingModel tc) ddl, RandomUUID u, NewDateISO t,
                               Upsert (collectionName qc) True [r] ]
           in (case client_upsert E (collectionName qc) True [r] s3 of
                (Inl e, s4) \<Rightarrow>
                  (Failure
                     (TextToSqlError
                        (''Failed to store schema: ''
                           @ Error_toString (QdrantError (''Failed to upsert vectors: '' @ Error_toString e) (Some e)))
                        (Some (QdrantError (''Failed to upsert vectors: '' @ Error_toString e) (Some e)))),
                   w\<lparr>ext := s4, calls := cs\<rparr>)
              | (Inr x, s4) \<Rightarrow> (Success (), w\<lparr>ext := s4, calls := cs\<rparr>)))))"
  by (simp add: trainFromSchema_def upsertVectors_run builtin_run Effect_flatMap_def Effect_mapError_def
        Effect_tryPromise_def external_call_def Let_def split: prod.splits sum.splits)

lemma pool_queries_append: "pool_queries (xs @ ys) = pool_queries xs @ pool_queries ys"
  by (induction xs rule: pool_queries.induct) simp_all

lemma embedded_append: "embedded (xs @ ys) = embedded xs @ embedded ys"
  by (induction xs rule: embedded.induct) simp_all

lemma upserted_append: "upserted (xs @ ys) = upserted xs @ upserted ys"
  by (induction xs rule: upserted.induct) simp_all

lemma uuids_append: "uuids (xs @ ys) = uuids xs @ uuids ys"
  by (induction xs rule: uuids.induct) simp_all

lemma created_append: "created (xs @ ys) = created xs @ created ys"
  by (induction xs rule: created.induct) simp_all

lemma listings_append: "listings (xs @ ys) = listings xs + listings ys"
  by (simp add: listings_def)

lemma pool_params_append: "pool_params (xs @ ys) = pool_params xs @ pool_params ys"
  by (induction xs rule: pool_params.induct) simp_all

lemma pool_params_none: "pool_queries d = [] \<Longrightarrow> pool_params d = []"
  by (induction d rule: pool_queries.induct) simp_all

lemmas observer_append =
  pool_queries_append embedded_append upserted_append uuids_append created_append listings_append
  pool_params_append

text \<open>What one \<open>createCollection\<close> adds to the calls.\<close>

lemma createCollection_outcome:
  assumes "createCollection E c vs w = (r, w')"
  shows "\<exists>d. calls w' = calls w @ d \<and> listings d = 1 \<and> embedded d = [] \<and> upserted d = []
           \<and> uuids d = [] \<and> pool_queries d = [] \<and> length (created d) \<le> 1"
    and "r = Success () \<or> (\<exists>e. r = Failure (QdrantError (''Failed to create collection: '' @ Error_toString e) (Some e)))"
  using assms
  by (auto simp: createCollection_run listings_def split: prod.splits sum.splits if_splits)

text \<open>What one \<open>trainFromSchema\<close> adds to the calls.\<close>

lemma trainFromSchema_outcome:
  assumes "trainFromSchema E qc tc ddl w = (r, w')"
  shows "\<exists>d. calls w' = calls w @ d \<and> listings d = 0 \<and> embedded d = [ddl] \<and> created d = []
           \<and> pool_queries d = []
           \<and> (r = Success () \<longrightarrow>
                 (\<exists>v. upserted d = [ [v] ] \<and> content (payload v) = ddl \<and> uuids d = [rid v]))"
    and "r = Success () \<or> (\<exists>e. r = Failure e \<and> name e = ''TextToSqlError'' \<and> cause e \<noteq> None)"
  using assms
  by (auto simp: trainFromSchema_run listings_def TextToSqlError_def Let_def
        split: prod.splits sum.splits)


lemma train_ddl_run:
  "train_ddl E qc tc ddl w =
     (case trainFromSchema E qc tc ddl w of
        (Failure e, w') \<Rightarrow>
          (Failure (TrainingError (''Failed to train schema: '' @ Error_toString e) (Some e)), w')
      | (r, w') \<Rightarrow> (r, w'))"
  by (simp add: train_ddl_def Effect_mapError_def split: prod.splits exit.splits)

lemma train_ddl_outcome:
  assumes "train_ddl E qc tc ddl w = (r, w')"
  shows "\<exists>d. calls w' = calls w @ d \<and> listings d = 0 \<and> embedded d = [ddl] \<and> created d = []
           \<and> (r = Success () \<longrightarrow>
                 (\<exists>v. upserted d = [ [v] ] \<and> content (payload v) = ddl \<and> uuids d = [rid v]))"
    and "r = Success () \<or> (\<exists>e. r = Failure e)"
proof -
  obtain r0 where run: "trainFromSchema E qc tc ddl w = (r0, w')" and r: "r0 = Success () \<longrightarrow> r = Success ()"
      "r = Success () \<longrightarrow> r0 = Success ()" "(\<exists>e. r0 = Failure e) \<longrightarrow> (\<exists>e. r = Failure e)"
    using assms by (auto simp: train_ddl_run split: prod.splits exit.splits)
  from trainFromSchema_outcome(1) [OF run] r
  show "\<exists>d. calls w' = calls w @ d \<and> listings d = 0 \<and> embedded d = [ddl] \<and> created d = []
           \<and> (r = Success () \<longrightarrow>
                 (\<exists>v. upserted d = [ [v] ] \<and> content (payload v) = ddl \<and> uuids d = [rid v]))"
    by blast
  from trainFromSchema_outcome(2) [OF run] r
  show "r = Success () \<or> (\<exists>e. r = Failure e)" by blast
qed

text \<open>The loop of \<open>trainFromDdlArray\<close>.\<close>

lemma forEach_train_ddl:
  assumes "Effect_forEach ddls (train_ddl E qc tc) w = (r, w')"
  shows "\<exists>d. calls w' = calls w @ d \<and> listings d = 0 \<and> created d = []
           \<and> prefix (embedded d) ddls
           \<and> ((\<exists>us. r = Success us) \<longrightarrow>
                 embedded d = ddls
                 \<and> map (map (\<lambda>v. content (payload v))) (upserted d) = map (\<lambda>x. [x]) ddls)"
  using assms
proof (induction ddls arbitrary: w r w')
  case Nil
  then show ?case by (auto simp: Effect_succeed_def listings_def)
next
  case (Cons x xs)
  obtain r1 w1 where step: "train_ddl E qc tc x w = (r1, w1)" by (cases "train_ddl E qc tc x w")
  from train_ddl_outcome(1) [OF step] obtain d1 where d1:
    "calls w1 = calls w @ d1" "listings d1 = 0" "embedded d1 = [x]" "created d1 = []"
    "r1 = Success () \<longrightarrow> (\<exists>v. upserted d1 = [ [v] ] \<and> content (payload v) = x \<and> uuids d1 = [rid v])"
    by blast
  show ?case
  proof (cases "r1 = Success ()")
    case False
    with train_ddl_outcome(2) [OF step] obtain e where e: "r1 = Failure e" by blast
    with Cons.prems step have "r = Failure e" "w' = w1"
      by (auto simp: Effect_flatMap_def)
    with d1 show ?thesis by auto
  next
    case True
    obtain r2 where rest: "Effect_forEach xs (train_ddl E qc tc) w1 = (r2, w')"
      and r2: "(\<exists>us. r = Success us) \<longleftrightarrow> (\<exists>us. r2 = Success us)"
      using Cons.prems step True
      by (cases "Effect_forEach xs (train_ddl E qc tc) w1")
         (auto simp: Effect_flatMap_def Effect_succeed_def split: exit.splits)
    from Cons.IH [OF rest] obtain d2 where d2:
      "calls w' = calls w1 @ d2" "listings d2 = 0" "created d2 = []" "prefix (embedded d2) xs"
      "(\<exists>us. r2 = Success us) \<longrightarrow>
         embedded d2 = xs \<and> map (map (\<lambda>v. content (payload v))) (upserted d2) = map (\<lambda>x. [x]) xs"
      by blast
    from True d1 obtain v where v: "upserted d1 = [ [v] ]" "content (payload v) = x" by blast
    have "calls w' = calls w @ (d1 @ d2)" using d1 d2 by simp
    moreover have "listings (d1 @ d2) = 0" "created (d1 @ d2) = []" using d1 d2 by (simp_all add: observer_append)
    moreover have "prefix (embedded (d1 @ d2)) (x # xs)" using d1 d2 by (simp add: observer_append)
    moreover have "(\<exists>us. r = Success us) \<longrightarrow>
         embedded (d1 @ d2) = x # xs
         \<and> map (map (\<lambda>v. content (payload v))) (upserted (d1 @ d2)) = map (\<lambda>x. [x]) (x # xs)"
      using d1 d2 r2 v by (simp add: observer_append)
    ultimately show ?thesis by blast
  qed
qed

lemmas train_eval_defs =
  trainFromDdlArray_def trainFromDdl_def train_ddl_def trainFromSchema_run createCollection_run
  Effect_flatMap_def Effect_mapError_def Effect_succeed_def
  stub_env_def Mock_getCollections_def Mock_createCollection_def Mock_upsert_def
  mockQdrantConfig_def mockTextToSqlConfig_def empty_world_def trained_world_def
  vectorSize_def Let_def

text \<open>A loop that fails has run a prefix with success and failed on the next element.\<close>

lemma forEach_Failure:
  assumes "Effect_forEach xs f w = (Failure e, w')"
  shows "\<exists>i wi ys. i < length xs \<and> Effect_forEach (take i xs) f w = (Success ys, wi)
           \<and> f (xs ! i) wi = (Failure e, w')"
  using assms
proof (induction xs arbitrary: w)
  case Nil
  then show ?case by (simp add: Effect_succeed_def)
next
  case (Cons x xs)
  obtain r1 w1 where step: "f x w = (r1, w1)" by (cases "f x w")
  show ?case
  proof (cases r1)
    case (Success y)
    with Cons.prems step have "Effect_forEach xs f w1 = (Failure e, w')"
      by (cases "Effect_forEach xs f w1")
         (auto simp: Effect_flatMap_def Effect_succeed_def split: exit.splits)
    from Cons.IH [OF this] obtain i wi ys where i: "i < length xs"
      "Effect_forEach (take i xs) f w1 = (Success ys, wi)" "f (xs ! i) wi = (Failure e, w')"
      by blast
    from i step Success have "Suc i < length (x # xs)"
      "Effect_forEach (take (Suc i) (x # xs)) f w = (Success (y # ys), wi)"
      "f ((x # xs) ! Suc i) wi = (Failure e, w')"
      by (simp_all add: Effect_flatMap_def Effect_succeed_def)
    then show ?thesis by blast
  next
    case (Failure e1)
    with Cons.prems step have "e1 = e" "w1 = w'" by (simp_all add: Effect_flatMap_def)
    with step Failure have "0 < length (x # xs)"
      "Effect_forEach (take 0 (x # xs)) f w = (Success [], w)"
      "f ((x # xs) ! 0) w = (Failure e, w')"
      by (simp_all add: Effect_succeed_def)
    then show ?thesis by blast
  next
    case (Die e1)
    with Cons.prems step show ?thesis by (simp add: Effect_flatMap_def)
  qed
qed

lemma forEach_never_dies:
  assumes body: "\<And>x w0 r w1 x0. f x w0 = (r, w1) \<Longrightarrow> r \<noteq> Die x0"
    and "Effect_forEach xs f w = (r, w')"
  shows "r \<noteq> Die x0"
  using assms(2)
proof (induction xs arbitrary: w r w')
  case Nil
  then show ?case by (auto simp: Effect_succeed_def)
next
  case (Cons x xs)
  obtain r1 w1 where step: "f x w = (r1, w1)" by (cases "f x w")
  obtain r2 w2 where rest: "Effect_forEach xs f w1 = (r2, w2)" by (cases "Effect_forEach xs f w1")
  from body [OF step] have "r1 \<noteq> Die x0" .
  moreover from Cons.IH [OF rest] have "r2 \<noteq> Die x0" .
  ultimately show ?case using Cons.prems step rest
    by (auto simp: Effect_flatMap_def Effect_succeed_def split: exit.splits)
qed

lemma trainFromDdl_failure:
  assumes run: "trainFromDdl E qc tc ddl w = (r, w')"
  shows "(\<forall>x. r \<noteq> Die x)
         \<and> (\<forall>e. r = Failure e \<longrightarrow>
               name e = ''TrainingError''
               \<and> (\<exists>d. cause e = Some d
                    \<and> (createCollection E qc vectorSize w = (Failure d, w')
                       \<or> (\<exists>w1. createCollection E qc vectorSize w = (Success (), w1)
                              \<and> trainFromSchema E qc tc ddl w1 = (Failure d, w')))))"
proof -
  obtain r0 w0 where ens: "createCollection E qc vectorSize w = (r0, w0)"
    by (cases "createCollection E qc vectorSize w")
  show ?thesis
  proof (cases "r0 = Success ()")
    case False
    with createCollection_outcome(2) [OF ens] obtain d where "r0 = Failure d" by blast
    with run ens show ?thesis
      by (auto simp: trainFromDdl_def Effect_flatMap_def Effect_mapError_def TrainingError_def)
  next
    case True
    obtain r1 w1 where tr: "trainFromSchema E qc tc ddl w0 = (r1, w1)"
      by (cases "trainFromSchema E qc tc ddl w0")
    from trainFromSchema_outcome(2) [OF tr] have "r1 = Success () \<or> (\<exists>e. r1 = Failure e)" by blast
    with run ens True tr show ?thesis
      by (auto simp: trainFromDdl_def Effect_flatMap_def Effect_mapError_def Effect_succeed_def
            TrainingError_def)
  qed
qed


lemma train_ddl_Failure:
  assumes "train_ddl E qc tc ddl w = (Failure e, w')"
  shows "\<exists>d. trainFromSchema E qc tc ddl w = (Failure d, w')
           \<and> e = TrainingError (''Failed to train schema: '' @ Error_toString d) (Some d)"
  using assms by (auto simp: train_ddl_run split: prod.splits exit.splits)

lemma trainFromDdlArray_failure:
  assumes run: "trainFromDdlArray E qc tc ddls w = (r, w')"
  shows "(\<forall>x. r \<noteq> Die x)
         \<and> (\<forall>e. r = Failure e \<longrightarrow>
               name e = ''TrainingError''
               \<and> (\<exists>d. cause e = Some d
                    \<and> (createCollection E qc vectorSize w = (Failure d, w')
                       \<or> (\<exists>i wi. i < length ddls
                              \<and> trainFromDdlArray E qc tc (take i ddls) w = (Success (), wi)
                              \<and> trainFromSchema E qc tc (ddls ! i) wi = (Failure d, w')
                              \<and> embedded (new_calls w w') = take (Suc i) ddls
                              \<and> map (map (\<lambda>v. content (payload v))) (upserted (new_calls w wi))
                                  = map (\<lambda>x. [x]) (take i ddls)))))"
proof -
  obtain r0 w0 where ens: "createCollection E qc vectorSize w = (r0, w0)"
    by (cases "createCollection E qc vectorSize w")
  from createCollection_outcome(1) [OF ens] obtain d0 where d0:
    "calls w0 = calls w @ d0" "embedded d0 = []" "upserted d0 = []"
    by blast
  show ?thesis
  proof (cases "r0 = Success ()")
    case False
    with createCollection_outcome(2) [OF ens] obtain d where "r0 = Failure d" by blast
    with run ens show ?thesis
      by (auto simp: trainFromDdlArray_def Effect_flatMap_def Effect_mapError_def TrainingError_def)
  next
    case True
    obtain r1 w1 where loop: "Effect_forEach ddls (train_ddl E qc tc) w0 = (r1, w1)"
      by (cases "Effect_forEach ddls (train_ddl E qc tc) w0")
    have alive: "r1 \<noteq> Die x" for x
    proof (rule forEach_never_dies [OF _ loop])
      fix y wa ra wb x0
      assume "train_ddl E qc tc y wa = (ra, wb)"
      from train_ddl_outcome(2) [OF this] show "ra \<noteq> Die x0" by auto
    qed
    from run ens True loop have w': "w' = w1"
      and r: "r = (case r1 of Success us \<Rightarrow> Success () | Failure e \<Rightarrow> Failure e | Die e \<Rightarrow> Die e)"
      by (auto simp: trainFromDdlArray_def Effect_flatMap_def Effect_mapError_def Effect_succeed_def
            split: exit.splits)
    have dies: "\<forall>x. r \<noteq> Die x" using r alive by (cases r1) auto
    have fails: "name e = ''TrainingError''
               \<and> (\<exists>d. cause e = Some d
                    \<and> (createCollection E qc vectorSize w = (Failure d, w')
                       \<or> (\<exists>i wi. i < length ddls
                              \<and> trainFromDdlArray E qc tc (take i ddls) w = (Success (), wi)
                              \<and> trainFromSchema E qc tc (ddls ! i) wi = (Failure d, w')
                              \<and> embedded (new_calls w w') = take (Suc i) ddls
                              \<and> map (map (\<lambda>v. content (payload v))) (upserted (new_calls w wi))
                                  = map (\<lambda>x. [x]) (take i ddls))))"
      if "r = Failure e" for e
    proof -
      from that r have "r1 = Failure e" by (cases r1) auto
      with loop w' have "Effect_forEach ddls (train_ddl E qc tc) w0 = (Failure e, w')" by simp
      from forEach_Failure [OF this] obtain i wi ys where i: "i < length ddls"
        "Effect_forEach (take i ddls) (train_ddl E qc tc) w0 = (Success ys, wi)"
        "train_ddl E qc tc (ddls ! i) wi = (Failure e, w')"
        by blast
      from train_ddl_Failure [OF i(3)] obtain d where d:
        "trainFromSchema E qc tc (ddls ! i) wi = (Failure d, w')"
        "e = TrainingError (''Failed to train schema: '' @ Error_toString d) (Some d)"
        by blast
      have pre: "trainFromDdlArray E qc tc (take i ddls) w = (Success (), wi)"
        using ens True i(2)
        by (simp add: trainFromDdlArray_def Effect_flatMap_def Effect_mapError_def Effect_succeed_def)
      from forEach_train_ddl [OF i(2)] obtain dp where dp:
        "calls wi = calls w0 @ dp" "embedded dp = take i ddls"
        "map (map (\<lambda>v. content (payload v))) (upserted dp) = map (\<lambda>x. [x]) (take i ddls)"
        by blast
      from trainFromSchema_outcome(1) [OF d(1)] obtain df where df:
        "calls w' = calls wi @ df" "embedded df = [ddls ! i]"
        by blast
      have ci: "calls wi = calls w @ (d0 @ dp)" using d0 dp by simp
      have cf: "calls w' = calls w @ (d0 @ dp @ df)" using d0 dp df by simp
      have emb: "embedded (new_calls w w') = take (Suc i) ddls"
        using d0 dp df i(1)
        by (simp add: new_calls_append [OF cf] observer_append take_Suc_conv_app_nth)
      have ups: "map (map (\<lambda>v. content (payload v))) (upserted (new_calls w wi))
                   = map (\<lambda>x. [x]) (take i ddls)"
        using d0 dp by (simp add: new_calls_append [OF ci] observer_append)
      from d(2) have "name e = ''TrainingError''" "cause e = Some d"
        by (simp_all add: TrainingError_def)
      with i(1) pre d(1) emb ups show ?thesis by blast
    qed
    from dies fails show ?thesis by blast
  qed
qed

lemma getSchema_outcome:
  assumes "getSchema E w = (r, w')"
  shows "(\<exists>ts. r = Success ts) \<or> (\<exists>e. r = Failure e)"
    and "calls w' = calls w @ [PoolQuery (JString getSchema_sql) None]"
  using assms
  by (auto simp: getSchema_def query_run Effect_flatMap_def Effect_succeed_def
        split: prod.splits sum.splits)

lemma render_throws:
  "render_columns n rs = Inl e \<Longrightarrow> e = cannot_convert"
proof (induction rs)
  case Nil
  then show ?case by simp
next
  case (Cons r rs)
  have col: "render_column n r = Inl e \<Longrightarrow> e = cannot_convert"
    by (auto simp: render_column_def split: sum.splits if_splits dest: ToString_throws(1))
  from Cons col show ?case by (auto split: sum.splits)
qed

text \<open>
  The outcomes of \<open>getTableSchema\<close>: the DDL (and then the table name could be printed), the
  failure of the query, or the defect of a value that cannot be converted to a string.
\<close>

lemma getTableSchema_outcome:
  assumes "getTableSchema E t w = (r, w')"
  shows "(\<exists>ddl nm. r = Success ddl \<and> ToString (Number_toString E) t = Inr nm)
         \<or> (\<exists>e. r = Failure e) \<or> r = Die cannot_convert"
    and "calls w' = calls w @ [PoolQuery (JString getTableSchema_sql) (Some [t])]"
  using assms
  by (auto simp: getTableSchema_def query_run Effect_flatMap_def Effect_succeed_def Effect_die_def
        Let_def split: prod.splits sum.splits dest: render_throws ToString_throws(1))

lemma train_table_get_fails:
  assumes "ToString (Number_toString E) t = Inr nm"
    and "getTableSchema E t w = (Failure d, w')"
  shows "train_table E qc tc t w
           = (Failure (TrainingError (''Failed to get table schema: '' @ Error_toString d) (Some d)), w')"
  using assms by (simp add: train_table_def Effect_flatMap_def Effect_mapError_def)

lemma train_table_train_fails:
  assumes get: "getTableSchema E t w = (Success ddl, wj)"
    and tr: "trainFromSchema E qc tc ddl wj = (Failure d, w')"
  shows "train_table E qc tc t w
           = (Failure (TrainingError (''Failed to train schema: '' @ Error_toString d) (Some d)), w')"
proof -
  from getTableSchema_outcome(1) [OF get] obtain nm where "ToString (Number_toString E) t = Inr nm"
    by auto
  with get tr show ?thesis by (simp add: train_table_def Effect_flatMap_def Effect_mapError_def)
qed

lemma train_table_cases:
  assumes "train_table E qc tc t w = (r, w')"
  shows "r = Success () \<or> r = Die cannot_convert
         \<or> (\<exists>d nm. ToString (Number_toString E) t = Inr nm
                \<and> getTableSchema E t w = (Failure d, w')
                \<and> r = Failure (TrainingError (''Failed to get table schema: '' @ Error_toString d) (Some d)))
         \<or> (\<exists>d ddl wj. getTableSchema E t w = (Success ddl, wj)
                \<and> trainFromSchema E qc tc ddl wj = (Failure d, w')
                \<and> r = Failure (TrainingError (''Failed to train schema: '' @ Error_toString d) (Some d)))"
proof (cases "ToString (Number_toString E) t")
  case (Inl thrown)
  with ToString_throws(1) [OF Inl] assms show ?thesis
    by (simp add: train_table_def Effect_die_def)
next
  case (Inr nm)
  obtain r1 w1 where g: "getTableSchema E t w = (r1, w1)" by (cases "getTableSchema E t w")
  from getTableSchema_outcome(1) [OF g] consider ddl where "r1 = Success ddl" | e where "r1 = Failure e"
    | "r1 = Die cannot_convert"
    by blast
  then show ?thesis
  proof cases
    case 1
    obtain r2 w2 where tr: "trainFromSchema E qc tc ddl w1 = (r2, w2)"
      by (cases "trainFromSchema E qc tc ddl w1")
    from trainFromSchema_outcome(2) [OF tr] have "r2 = Success () \<or> (\<exists>e. r2 = Failure e)" by blast
    with assms Inr g 1 tr show ?thesis
      by (auto simp: train_table_def Effect_flatMap_def Effect_mapError_def)
  next
    case 2
    with assms Inr g show ?thesis
      by (auto simp: train_table_def Effect_flatMap_def Effect_mapError_def)
  next
    case 3
    with assms Inr g show ?thesis
      by (auto simp: train_table_def Effect_flatMap_def Effect_mapError_def)
  qed
qed

lemma train_table_calls:
  assumes "train_table E qc tc t w = (r, w')"
  shows "\<exists>d. calls w' = calls w @ d"
proof (cases "ToString (Number_toString E) t")
  case (Inl thrown)
  with assms show ?thesis by (simp add: train_table_def Effect_die_def)
next
  case (Inr nm)
  obtain rg wg where g: "getTableSchema E t w = (rg, wg)" by (cases "getTableSchema E t w")
  note cg = getTableSchema_outcome(2) [OF g]
  show ?thesis
  proof (cases rg)
    case (Success ddl)
    obtain r2 w2 where tr: "trainFromSchema E qc tc ddl wg = (r2, w2)"
      by (cases "trainFromSchema E qc tc ddl wg")
    from trainFromSchema_outcome(1) [OF tr] obtain d2 where "calls w2 = calls wg @ d2" by blast
    moreover from assms Inr g Success tr have "w' = w2"
      by (auto simp: train_table_def Effect_flatMap_def Effect_mapError_def split: exit.splits)
    ultimately show ?thesis using cg by simp
  next
    case (Failure e)
    with assms Inr g have "w' = wg"
      by (auto simp: train_table_def Effect_flatMap_def Effect_mapError_def)
    with cg show ?thesis by simp
  next
    case (Die e)
    with assms Inr g have "w' = wg"
      by (auto simp: train_table_def Effect_flatMap_def Effect_mapError_def)
    with cg show ?thesis by simp
  qed
qed

text \<open>
  A run of \<open>train_table\<close> that is not a defect asks for the columns of its table, once, and
  stores one batch when it succeeds.
\<close>

lemma train_table_asks:
  assumes run: "train_table E qc tc t w = (r, w')"
    and alive: "\<forall>x. r \<noteq> Die x"
  shows "\<exists>d. calls w' = calls w @ d \<and> pool_params d = [t]
           \<and> (r = Success () \<longrightarrow> length (upserted d) = 1)"
proof (cases "ToString (Number_toString E) t")
  case (Inl thrown)
  with run alive show ?thesis by (auto simp: train_table_def Effect_die_def)
next
  case (Inr nm)
  obtain rg wg where g: "getTableSchema E t w = (rg, wg)" by (cases "getTableSchema E t w")
  note cg = getTableSchema_outcome(2) [OF g]
  show ?thesis
  proof (cases rg)
    case (Success ddl)
    obtain r2 w2 where tr: "trainFromSchema E qc tc ddl wg = (r2, w2)"
      by (cases "trainFromSchema E qc tc ddl wg")
    from trainFromSchema_outcome(1) [OF tr] obtain d2 where d2:
      "calls w2 = calls wg @ d2" "pool_queries d2 = []"
      "r2 = Success () \<longrightarrow> (\<exists>v. upserted d2 = [ [v] ])"
      by blast
    from run Inr g Success tr have w': "w' = w2" and r: "r = Success () \<longrightarrow> r2 = Success ()"
      by (auto simp: train_table_def Effect_flatMap_def Effect_mapError_def split: exit.splits)
    have "calls w' = calls w @ (PoolQuery (JString getTableSchema_sql) (Some [t]) # d2)"
      using cg d2(1) w' by simp
    moreover have "pool_params (PoolQuery (JString getTableSchema_sql) (Some [t]) # d2) = [t]"
      using pool_params_none [OF d2(2)] by simp
    moreover have "r = Success () \<longrightarrow>
        length (upserted (PoolQuery (JString getTableSchema_sql) (Some [t]) # d2)) = 1"
      using d2(3) r by auto
    ultimately show ?thesis by blast
  next
    case (Failure e)
    with run Inr g have "w' = wg" "r \<noteq> Success ()"
      by (auto simp: train_table_def Effect_flatMap_def Effect_mapError_def)
    with cg show ?thesis by simp
  next
    case (Die e)
    with run Inr g alive show ?thesis
      by (auto simp: train_table_def Effect_flatMap_def Effect_mapError_def)
  qed
qed

text \<open>A successful loop over tables has asked for each of them, in order, and stored one batch each.\<close>

lemma forEach_train_table:
  assumes "Effect_forEach ts (train_table E qc tc) w = (Success us, w')"
  shows "\<exists>d. calls w' = calls w @ d \<and> pool_params d = ts \<and> length (upserted d) = length ts"
  using assms
proof (induction ts arbitrary: w us)
  case Nil
  then show ?case by (simp add: Effect_succeed_def)
next
  case (Cons t ts)
  obtain r1 w1 where step: "train_table E qc tc t w = (r1, w1)"
    by (cases "train_table E qc tc t w")
  obtain r2 w2 where rest: "Effect_forEach ts (train_table E qc tc) w1 = (r2, w2)"
    by (cases "Effect_forEach ts (train_table E qc tc) w1")
  from Cons.prems step rest obtain ys where ok: "r1 = Success ()" "r2 = Success ys" "w2 = w'"
    by (auto simp: Effect_flatMap_def Effect_succeed_def split: exit.splits)
  from train_table_asks [OF step] ok(1) obtain d1 where d1:
    "calls w1 = calls w @ d1" "pool_params d1 = [t]" "length (upserted d1) = 1"
    by auto
  from rest ok have "Effect_forEach ts (train_table E qc tc) w1 = (Success ys, w')" by simp
  from Cons.IH [OF this] obtain d2 where d2:
    "calls w' = calls w1 @ d2" "pool_params d2 = ts" "length (upserted d2) = length ts"
    by blast
  have "calls w' = calls w @ (d1 @ d2)" using d1 d2 by simp
  moreover have "pool_params (d1 @ d2) = t # ts" using d1 d2 by (simp add: observer_append)
  moreover have "length (upserted (d1 @ d2)) = length (t # ts)"
    using d1 d2 by (simp add: observer_append)
  ultimately show ?case by blast
qed

text \<open>A loop ends in a defect only when one run of its body does.\<close>

lemma forEach_Die:
  assumes "Effect_forEach xs f w = (Die x0, w')"
  shows "\<exists>x w0 w1. f x w0 = (Die x0, w1)"
  using assms
proof (induction xs arbitrary: w)
  case Nil
  then show ?case by (simp add: Effect_succeed_def)
next
  case (Cons x xs)
  obtain r1 w1 where step: "f x w = (r1, w1)" by (cases "f x w")
  show ?case
  proof (cases r1)
    case (Success y)
    with Cons.prems step have "Effect_forEach xs f w1 = (Die x0, w')"
      by (cases "Effect_forEach xs f w1")
         (auto simp: Effect_flatMap_def Effect_succeed_def split: exit.splits)
    from Cons.IH [OF this] show ?thesis .
  next
    case (Failure e)
    with Cons.prems step show ?thesis by (simp add: Effect_flatMap_def)
  next
    case (Die e)
    with Cons.prems step have "f x w = (Die x0, w1)" by (simp add: Effect_flatMap_def)
    then show ?thesis by blast
  qed
qed

text \<open>
  A loop whose first \<open>i\<close> elements succeed and whose next element fails, fails with that
  failure in the world the failing element left: no later element is run.
\<close>

lemma forEach_fails_at:
  assumes "i < length xs"
    and "Effect_forEach (take i xs) f w = (Success ys, wi)"
    and "f (xs ! i) wi = (Failure e, w')"
  shows "Effect_forEach xs f w = (Failure e, w')"
  using assms
proof (induction xs arbitrary: i w ys)
  case Nil
  then show ?case by simp
next
  case (Cons x xs)
  show ?case
  proof (cases i)
    case 0
    with Cons.prems show ?thesis by (simp add: Effect_succeed_def Effect_flatMap_def)
  next
    case (Suc j)
    obtain r1 w1 where step: "f x w = (r1, w1)" by (cases "f x w")
    obtain r2 w2 where rest: "Effect_forEach (take j xs) f w1 = (r2, w2)"
      by (cases "Effect_forEach (take j xs) f w1")
    from Cons.prems(2) Suc step rest obtain y ys' where y: "r1 = Success y" "r2 = Success ys'" "w2 = wi"
      by (auto simp: Effect_flatMap_def Effect_succeed_def split: exit.splits)
    from Cons.prems(1) Suc have "j < length xs" by simp
    moreover from rest y have "Effect_forEach (take j xs) f w1 = (Success ys', wi)" by simp
    moreover from Cons.prems(3) Suc have "f (xs ! j) wi = (Failure e, w')" by simp
    ultimately have "Effect_forEach xs f w1 = (Failure e, w')" by (rule Cons.IH)
    with step y show ?thesis by (simp add: Effect_flatMap_def)
  qed
qed

section \<open>Failures of the training entry points\<close>

lemma trainFromDdl_create_fails:
  assumes "createCollection E qc vectorSize w = (Failure d, w')"
  shows "trainFromDdl E qc tc ddl w
           = (Failure (TrainingError (''Failed to create collection: '' @ Error_toString d) (Some d)), w')"
  using assms by (simp add: trainFromDdl_def Effect_flatMap_def Effect_mapError_def)

lemma trainFromDdl_train_fails:
  assumes "createCollection E qc vectorSize w = (Success (), w0)"
    and "trainFromSchema E qc tc ddl w0 = (Failure d, w')"
  shows "trainFromDdl E qc tc ddl w
           = (Failure (TrainingError (''Failed to train schema: '' @ Error_toString d) (Some d)), w')"
  using assms by (simp add: trainFromDdl_def Effect_flatMap_def Effect_mapError_def)

lemma trainFromDdlArray_create_fails:
  assumes "createCollection E qc vectorSize w = (Failure d, w')"
  shows "trainFromDdlArray E qc tc ddls w
           = (Failure (TrainingError (''Failed to create collection: '' @ Error_toString d) (Some d)), w')"
  using assms by (simp add: trainFromDdlArray_def Effect_flatMap_def Effect_mapError_def)

lemma trainFromDdlArray_success_parts:
  assumes "trainFromDdlArray E qc tc ddls w = (Success (), w')"
  shows "\<exists>w0 us. createCollection E qc vectorSize w = (Success (), w0)
           \<and> Effect_forEach ddls (train_ddl E qc tc) w0 = (Success us, w')"
proof -
  obtain r0 w0 where ens: "createCollection E qc vectorSize w = (r0, w0)"
    by (cases "createCollection E qc vectorSize w")
  obtain r1 w1 where loop: "Effect_forEach ddls (train_ddl E qc tc) w0 = (r1, w1)"
    by (cases "Effect_forEach ddls (train_ddl E qc tc) w0")
  from createCollection_outcome(2) [OF ens] assms ens loop show ?thesis
    by (auto simp: trainFromDdlArray_def Effect_flatMap_def Effect_mapError_def Effect_succeed_def
          split: exit.splits)
qed

lemma trainFromDdlArray_fails_at:
  assumes i: "i < length ddls"
    and pre: "trainFromDdlArray E qc tc (take i ddls) w = (Success (), wi)"
    and fail: "trainFromSchema E qc tc (ddls ! i) wi = (Failure d, w')"
  shows "trainFromDdlArray E qc tc ddls w
           = (Failure (TrainingError (''Failed to train schema: '' @ Error_toString d) (Some d)), w')"
    and "embedded (new_calls w w') = take (Suc i) ddls"
    and "map (map (\<lambda>v. content (payload v))) (upserted (new_calls w wi)) = map (\<lambda>x. [x]) (take i ddls)"
proof -
  from trainFromDdlArray_success_parts [OF pre] obtain w0 us where
    ens: "createCollection E qc vectorSize w = (Success (), w0)"
    and loop: "Effect_forEach (take i ddls) (train_ddl E qc tc) w0 = (Success us, wi)"
    by blast
  from fail have body: "train_ddl E qc tc (ddls ! i) wi
      = (Failure (TrainingError (''Failed to train schema: '' @ Error_toString d) (Some d)), w')"
    by (simp add: train_ddl_run)
  from forEach_fails_at [OF i loop body] ens
  show "trainFromDdlArray E qc tc ddls w
           = (Failure (TrainingError (''Failed to train schema: '' @ Error_toString d) (Some d)), w')"
    by (simp add: trainFromDdlArray_def Effect_flatMap_def Effect_mapError_def)
  from createCollection_outcome(1) [OF ens] obtain d0 where d0:
    "calls w0 = calls w @ d0" "embedded d0 = []" "upserted d0 = []"
    by blast
  from forEach_train_ddl [OF loop] obtain dp where dp:
    "calls wi = calls w0 @ dp" "embedded dp = take i ddls"
    "map (map (\<lambda>v. content (payload v))) (upserted dp) = map (\<lambda>x. [x]) (take i ddls)"
    by blast
  from trainFromSchema_outcome(1) [OF fail] obtain df where df:
    "calls w' = calls wi @ df" "embedded df = [ddls ! i]"
    by blast
  have ci: "calls wi = calls w @ (d0 @ dp)" using d0 dp by simp
  have cf: "calls w' = calls w @ (d0 @ dp @ df)" using d0 dp df by simp
  show "embedded (new_calls w w') = take (Suc i) ddls"
    using d0 dp df i by (simp add: new_calls_append [OF cf] observer_append take_Suc_conv_app_nth)
  show "map (map (\<lambda>v. content (payload v))) (upserted (new_calls w wi)) = map (\<lambda>x. [x]) (take i ddls)"
    using d0 dp by (simp add: new_calls_append [OF ci] observer_append)
qed

lemma trainFromDatabase_listing_fails:
  assumes "getSchema E w = (Failure d, w')"
  shows "trainFromDatabase E qc tc w
           = (Failure (TrainingError (''Failed to get schema: '' @ Error_toString d) (Some d)), w')"
  using assms by (simp add: trainFromDatabase_def Effect_flatMap_def Effect_mapError_def)

lemma trainFromDatabase_create_fails:
  assumes "getSchema E w = (Success tables, wa)"
    and "createCollection E qc vectorSize wa = (Failure d, w')"
  shows "trainFromDatabase E qc tc w
           = (Failure (TrainingError (''Failed to create collection: '' @ Error_toString d) (Some d)), w')"
  using assms by (simp add: trainFromDatabase_def Effect_flatMap_def Effect_mapError_def)

lemma trainFromDatabase_table_fails:
  assumes "getSchema E w = (Success tables, wa)"
    and "createCollection E qc vectorSize wa = (Success (), wb)"
    and "i < length tables"
    and "Effect_forEach (take i tables) (train_table E qc tc) wb = (Success us, wi)"
    and "train_table E qc tc (tables ! i) wi = (Failure e, w')"
  shows "trainFromDatabase E qc tc w = (Failure e, w')"
  using assms(1,2) forEach_fails_at [OF assms(3,4,5)]
  by (simp add: trainFromDatabase_def Effect_flatMap_def Effect_mapError_def)

text \<open>
  What was sent when \<open>trainFromDatabase\<close> fails on table \<open>i\<close>: the columns of the tables up
  to \<open>i\<close> were asked for and of no later one, and \<open>i\<close> batches were stored before.
\<close>

lemma trainFromDatabase_fails_at:
  assumes gs: "getSchema E w = (Success tables, wa)"
    and ens: "createCollection E qc vectorSize wa = (Success (), wb)"
    and i: "i < length tables"
    and pre: "Effect_forEach (take i tables) (train_table E qc tc) wb = (Success us, wi)"
    and fail: "train_table E qc tc (tables ! i) wi = (Failure e, w')"
  shows "pool_params (new_calls w w') = take (Suc i) tables"
    and "length (upserted (new_calls w wi)) = i"
proof -
  note ca = getSchema_outcome(2) [OF gs]
  from createCollection_outcome(1) [OF ens] obtain d0 where d0:
    "calls wb = calls wa @ d0" "pool_queries d0 = []" "upserted d0 = []"
    by blast
  from forEach_train_table [OF pre] i obtain dp where dp:
    "calls wi = calls wb @ dp" "pool_params dp = take i tables" "length (upserted dp) = i"
    by auto
  from train_table_asks [OF fail] obtain df where df:
    "calls w' = calls wi @ df" "pool_params df = [tables ! i]"
    by auto
  have ci: "calls wi = calls w @ (PoolQuery (JString getSchema_sql) None # d0 @ dp)"
    using ca d0 dp by simp
  have cf: "calls w' = calls w @ (PoolQuery (JString getSchema_sql) None # d0 @ dp @ df)"
    using ca d0 dp df by simp
  show "pool_params (new_calls w w') = take (Suc i) tables"
    using pool_params_none [OF d0(2)] dp df i
    by (simp add: new_calls_append [OF cf] observer_append take_Suc_conv_app_nth)
  show "length (upserted (new_calls w wi)) = i"
    using d0 dp by (simp add: new_calls_append [OF ci] observer_append)
qed

lemma trainFromDatabase_get_fails_at:
  assumes gs: "getSchema E w = (Success tables, wa)"
    and ens: "createCollection E qc vectorSize wa = (Success (), wb)"
    and i: "i < length tables"
    and pre: "Effect_forEach (take i tables) (train_table E qc tc) wb = (Success us, wi)"
    and nm: "ToString (Number_toString E) (tables ! i) = Inr nm"
    and fail: "getTableSchema E (tables ! i) wi = (Failure d, w')"
  shows "trainFromDatabase E qc tc w
           = (Failure (TrainingError (''Failed to get table schema: '' @ Error_toString d) (Some d)), w')
         \<and> pool_params (new_calls w w') = take (Suc i) tables
         \<and> length (upserted (new_calls w wi)) = i"
proof -
  note body = train_table_get_fails [OF nm fail, where qc = qc and tc = tc]
  from trainFromDatabase_table_fails [OF gs ens i pre body]
    trainFromDatabase_fails_at [OF gs ens i pre body]
  show ?thesis by (intro conjI)
qed

lemma trainFromDatabase_train_fails_at:
  assumes gs: "getSchema E w = (Success tables, wa)"
    and ens: "createCollection E qc vectorSize wa = (Success (), wb)"
    and i: "i < length tables"
    and pre: "Effect_forEach (take i tables) (train_table E qc tc) wb = (Success us, wi)"
    and get: "getTableSchema E (tables ! i) wi = (Success ddl, wj)"
    and fail: "trainFromSchema E qc tc ddl wj = (Failure d, w')"
  shows "trainFromDatabase E qc tc w
           = (Failure (TrainingError (''Failed to train schema: '' @ Error_toString d) (Some d)), w')
         \<and> pool_params (new_calls w w') = take (Suc i) tables
         \<and> length (upserted (new_calls w wi)) = i"
proof -
  note body = train_table_train_fails [OF get fail]
  from trainFromDatabase_table_fails [OF gs ens i pre body]
    trainFromDatabase_fails_at [OF gs ens i pre body]
  show ?thesis by (intro conjI)
qed

lemma trainFromDdlArray_fails_at_all:
  assumes i: "i < length ddls"
    and pre: "trainFromDdlArray E qc tc (take i ddls) w = (Success (), wi)"
    and fail: "trainFromSchema E qc tc (ddls ! i) wi = (Failure d, w')"
  shows "trainFromDdlArray E qc tc ddls w
           = (Failure (TrainingError (''Failed to train schema: '' @ Error_toString d) (Some d)), w')
         \<and> embedded (new_calls w w') = take (Suc i) ddls
         \<and> map (map (\<lambda>v. content (payload v))) (upserted (new_calls w wi))
             = map (\<lambda>x. [x]) (take i ddls)"
  using trainFromDdlArray_fails_at [OF assms] by (intro conjI)

lemmas database_eval_defs =
  trainFromDatabase_def train_table_def getSchema_def getTableSchema_def query_run
  createCollection_run trainFromSchema_run render_column_def vectorSize_def
  Effect_flatMap_def Effect_mapError_def Effect_succeed_def
  stub_env_def Mock_getCollections_def Mock_createCollection_def
  Mock_upsert_def mockQdrantConfig_def mockTextToSqlConfig_def empty_world_def row_get_def
  getSchema_sql_def getTableSchema_sql_def two_tables_pg_def Let_def

text \<open>With no table discovered, \<open>trainFromDatabase\<close> ends once the collection is ensured.\<close>

lemma trainFromDatabase_no_tables:
  assumes "getSchema E w = (Success [], w1)"
    and "createCollection E qc vectorSize w1 = (Success (), w2)"
  shows "trainFromDatabase E qc tc w = (Success (), w2)"
  using assms
  by (simp add: trainFromDatabase_def Effect_flatMap_def Effect_mapError_def Effect_succeed_def)

lemma trainFromDatabase_failure:
  assumes run: "trainFromDatabase E qc tc w = (r, w')"
  shows "(\<forall>x. r = Die x \<longrightarrow> x = cannot_convert)
         \<and> (\<forall>e. r = Failure e \<longrightarrow>
               name e = ''TrainingError''
               \<and> (\<exists>d. cause e = Some d
                    \<and> (getSchema E w = (Failure d, w')
                       \<or> (\<exists>tables w1. getSchema E w = (Success tables, w1)
                            \<and> (createCollection E qc vectorSize w1 = (Failure d, w')
                               \<or> (\<exists>w2 i wi us. createCollection E qc vectorSize w1 = (Success (), w2)
                                     \<and> i < length tables
                                     \<and> Effect_forEach (take i tables) (train_table E qc tc) w2
                                         = (Success us, wi)
                                     \<and> (getTableSchema E (tables ! i) wi = (Failure d, w')
                                        \<or> (\<exists>ddl wj. getTableSchema E (tables ! i) wi = (Success ddl, wj)
                                               \<and> trainFromSchema E qc tc ddl wj = (Failure d, w')))))))))"
proof -
  obtain rs w1 where gs: "getSchema E w = (rs, w1)" by (cases "getSchema E w")
  from getSchema_outcome(1) [OF gs] consider tables where "rs = Success tables" | d where "rs = Failure d"
    by blast
  then show ?thesis
  proof cases
    case 2
    with run gs show ?thesis
      by (auto simp: trainFromDatabase_def Effect_flatMap_def Effect_mapError_def TrainingError_def)
  next
    case 1
    obtain r0 w2 where ens: "createCollection E qc vectorSize w1 = (r0, w2)"
      by (cases "createCollection E qc vectorSize w1")
    show ?thesis
    proof (cases "r0 = Success ()")
      case False
      with createCollection_outcome(2) [OF ens] obtain d where "r0 = Failure d" by blast
      with run gs 1 ens show ?thesis
        by (auto simp: trainFromDatabase_def Effect_flatMap_def Effect_mapError_def TrainingError_def)
    next
      case True
      obtain r1 w3 where loop: "Effect_forEach tables (train_table E qc tc) w2 = (r1, w3)"
        by (cases "Effect_forEach tables (train_table E qc tc) w2")
      have alive: "x = cannot_convert" if "r1 = Die x" for x
      proof -
        from that loop have "Effect_forEach tables (train_table E qc tc) w2 = (Die x, w3)" by simp
        from forEach_Die [OF this] obtain t wa wb where "train_table E qc tc t wa = (Die x, wb)"
          by blast
        from train_table_cases [OF this] show ?thesis by auto
      qed
      from run gs 1 ens True loop have w': "w' = w3"
        and r: "r = (case r1 of Success us \<Rightarrow> Success () | Failure e \<Rightarrow> Failure e | Die e \<Rightarrow> Die e)"
        by (auto simp: trainFromDatabase_def Effect_flatMap_def Effect_mapError_def Effect_succeed_def
              split: exit.splits)
      have dies: "\<forall>x. r = Die x \<longrightarrow> x = cannot_convert" using r alive by (cases r1) auto
      have fails: "name e = ''TrainingError''
               \<and> (\<exists>d. cause e = Some d
                    \<and> (\<exists>i wi us. i < length tables
                          \<and> Effect_forEach (take i tables) (train_table E qc tc) w2 = (Success us, wi)
                          \<and> (getTableSchema E (tables ! i) wi = (Failure d, w')
                             \<or> (\<exists>ddl wj. getTableSchema E (tables ! i) wi = (Success ddl, wj)
                                    \<and> trainFromSchema E qc tc ddl wj = (Failure d, w')))))"
        if "r = Failure e" for e
      proof -
        from that r have "r1 = Failure e" by (cases r1) auto
        with loop w' have "Effect_forEach tables (train_table E qc tc) w2 = (Failure e, w')" by simp
        from forEach_Failure [OF this] obtain i wi us where i: "i < length tables"
          "Effect_forEach (take i tables) (train_table E qc tc) w2 = (Success us, wi)"
          "train_table E qc tc (tables ! i) wi = (Failure e, w')"
          by blast
        from train_table_cases [OF i(3)] consider
          d where "getTableSchema E (tables ! i) wi = (Failure d, w')"
            "e = TrainingError (''Failed to get table schema: '' @ Error_toString d) (Some d)"
        | d ddl wj where "getTableSchema E (tables ! i) wi = (Success ddl, wj)"
            "trainFromSchema E qc tc ddl wj = (Failure d, w')"
            "e = TrainingError (''Failed to train schema: '' @ Error_toString d) (Some d)"
          by auto
        then show ?thesis
        proof cases
          case 1
          then have "name e = ''TrainingError''" "cause e = Some d" by (simp_all add: TrainingError_def)
          with i(1,2) 1(1) show ?thesis by blast
        next
          case 2
          then have "name e = ''TrainingError''" "cause e = Some d" by (simp_all add: TrainingError_def)
          with i(1,2) 2(1,2) show ?thesis by blast
        qed
      qed
      from dies fails gs 1 ens True show ?thesis by blast
    qed
  qed
qed

text \<open>\<open>upsertVectors\<close> sends whatever it is given, of any length.\<close>

lemma upsertVectors_always_calls:
  "calls (snd (upsertVectors E config vs w)) = calls w @ [Upsert (collectionName config) True vs]"
  by (simp add: upsertVectors_run split: prod.splits sum.splits)

text \<open>The first call of \<open>trainFromDatabase\<close> is always the listing of the tables.\<close>

lemma trainFromDatabase_starts_with_listing:
  "\<exists>d. calls (snd (trainFromDatabase E qc tc w)) = calls w @ PoolQuery (JString getSchema_sql) None # d"
proof -
  obtain rs w1 where gs: "getSchema E w = (rs, w1)" by (cases "getSchema E w")
  note c1 = getSchema_outcome(2) [OF gs]
  from getSchema_outcome(1) [OF gs] consider tables where "rs = Success tables" | d where "rs = Failure d"
    by blast
  then show ?thesis
  proof cases
    case 2
    with gs c1 show ?thesis
      by (simp add: trainFromDatabase_def Effect_flatMap_def Effect_mapError_def)
  next
    case 1
    obtain r0 w2 where ens: "createCollection E qc vectorSize w1 = (r0, w2)"
      by (cases "createCollection E qc vectorSize w1")
    from createCollection_outcome(1) [OF ens] obtain d0 where d0: "calls w2 = calls w1 @ d0" by blast
    show ?thesis
    proof (cases "r0 = Success ()")
      case False
      with createCollection_outcome(2) [OF ens] obtain e where "r0 = Failure e" by blast
      with gs 1 ens c1 d0 show ?thesis
        by (simp add: trainFromDatabase_def Effect_flatMap_def Effect_mapError_def)
    next
      case True
      obtain r1 w3 where loop: "Effect_forEach tables (train_table E qc tc) w2 = (r1, w3)"
        by (cases "Effect_forEach tables (train_table E qc tc) w2")
      have grow: "\<exists>d. calls wb = calls wa @ d"
        if "Effect_forEach ts (train_table E qc tc) wa = (r, wb)" for ts wa r wb
        using that
      proof (induction ts arbitrary: wa r wb)
        case Nil
        then show ?case by (simp add: Effect_succeed_def)
      next
        case (Cons t ts)
        obtain rt wt where step: "train_table E qc tc t wa = (rt, wt)"
          by (cases "train_table E qc tc t wa")
        from train_table_calls [OF step] obtain d1 where d1: "calls wt = calls wa @ d1" by blast
        show ?case
        proof (cases rt)
          case (Success u)
          obtain r2 w2' where rest: "Effect_forEach ts (train_table E qc tc) wt = (r2, w2')"
            by (cases "Effect_forEach ts (train_table E qc tc) wt")
          from Cons.IH [OF rest] obtain d2 where "calls w2' = calls wt @ d2" by blast
          moreover from Cons.prems step Success rest have "wb = w2'"
            by (auto simp: Effect_flatMap_def Effect_succeed_def split: exit.splits)
          ultimately show ?thesis using d1 by simp
        next
          case (Failure e)
          with Cons.prems step have "wb = wt" by (simp add: Effect_flatMap_def)
          with d1 show ?thesis by simp
        next
          case (Die e)
          with Cons.prems step have "wb = wt" by (simp add: Effect_flatMap_def)
          with d1 show ?thesis by simp
        qed
      qed
      from grow [OF loop] obtain d3 where d3: "calls w3 = calls w2 @ d3" by blast
      from gs 1 ens True loop have "snd (trainFromDatabase E qc tc w) = w3"
        by (auto simp: trainFromDatabase_def Effect_flatMap_def Effect_mapError_def Effect_succeed_def
              split: exit.splits)
      with c1 d0 d3 show ?thesis by simp
    qed
  qed
qed

section \<open>Query Pipeline: the confidence gate, dry runs and validation\<close>

text \<open>
  Claim C1. Whatever the question and the configuration, when \<open>generateSql\<close> returns a
  candidate whose confidence is below \<open>minConfidence\<close> (the comparison of the source,
  \<open>confidence_below\<close>, answers \<open>true\<close>), \<open>askQuestion\<close> fails with a \<open>QueryPipelineError\<close>
  that has no cause, the run ends in the very world in which \<open>generateSql\<close> returned, and
  no statement at all was sent to the Schema Store during the request.
\<close>

theorem low_confidence_never_executes:
  assumes start: "builtin (Date_now E) DateNow w = (Success startTime, w0)"
    and gen: "generateSql E qconfig tconfig q w0 = (Success cand, w1)"
    and low: "confidence_below E (confidence cand) (minConfidence config) = Inr True"
  shows "\<exists>shown. ToString (Number_toString E) (confidence cand) = Inr shown
           \<and> askQuestion E qconfig tconfig config q w =
               (Failure
                  (QueryPipelineError
                     (''Generated SQL has low confidence: '' @ shown
                        @ ''. Minimum required: '' @ Number_toString E (minConfidence config))
                     None),
                w1)
           \<and> calls w1 = calls w @ new_calls w w1
           \<and> pool_queries (new_calls w w1) = []"
proof -
  from confidence_below_prints [OF low] obtain shown where
    shown: "ToString (Number_toString E) (confidence cand) = Inr shown"
    by blast
  have run: "askQuestion E qconfig tconfig config q w =
           (Failure
              (QueryPipelineError
                 (''Generated SQL has low confidence: '' @ shown
                    @ ''. Minimum required: '' @ Number_toString E (minConfidence config))
                 None),
            w1)"
    using start gen low shown
    by (simp add: askQuestion_def Effect_flatMap_def Effect_mapError_def Effect_fail_def)
  from start have c0: "calls w0 = calls w @ [DateNow startTime]"
    by (auto simp: builtin_run split: prod.splits)
  from generateSql_calls [OF gen] obtain d where d: "calls w1 = calls w0 @ d" "pool_queries d = []"
    by blast
  from c0 d have c1: "calls w1 = calls w @ (DateNow startTime # d)" by simp
  from c1 have n: "new_calls w w1 = DateNow startTime # d" by (rule new_calls_append)
  show ?thesis using shown run c1 n d by simp
qed

theorem low_confidence_witness:
  "fst (generateSql low_confidence_env mockQdrantConfig mockTextToSqlConfig ''Show me data from the flibbertigibbet table''
          (snd (builtin (Date_now low_confidence_env) DateNow empty_world)))
     = Success \<lparr>sql = JString ''SELECT * FROM unknown_table'', confidence = JNumber (Finite 0.3),
                 explanation = JString ''Unable to determine table structure''\<rparr>
   \<and> confidence_below low_confidence_env (JNumber (Finite 0.3)) (minConfidence mockQueryPipelineConfig)
       = Inr True
   \<and> fst (askQuestion low_confidence_env mockQdrantConfig mockTextToSqlConfig mockQueryPipelineConfig
            ''Show me data from the flibbertigibbet table'' empty_world)
       = Failure (QueryPipelineError ''Generated SQL has low confidence: 0.3. Minimum required: 0.7'' None)
   \<and> pool_queries (calls (snd (askQuestion low_confidence_env mockQdrantConfig mockTextToSqlConfig
            mockQueryPipelineConfig ''Show me data from the flibbertigibbet table'' empty_world))) = []"
  (is "?G \<and> ?L \<and> ?A \<and> ?P")
proof -
  let ?E = low_confidence_env
  let ?q = "''Show me data from the flibbertigibbet table''"
  let ?w0 = "snd (builtin (Date_now ?E) DateNow empty_world)"
  let ?w1 = "snd (generateSql ?E mockQdrantConfig mockTextToSqlConfig ?q ?w0)"
  let ?cand = "\<lparr>sql = JString ''SELECT * FROM unknown_table'', confidence = JNumber (Finite 0.3),
                 explanation = JString ''Unable to determine table structure''\<rparr>"
  have start: "builtin (Date_now ?E) DateNow empty_world = (Success 1000, ?w0)"
    by (simp add: eval_defs low_confidence_env_def)
  have g: ?G
    by (simp add: eval_defs low_confidence_env_def test_embedding_def)
  then have gen: "generateSql ?E mockQdrantConfig mockTextToSqlConfig ?q ?w0 = (Success ?cand, ?w1)"
    by (simp add: prod_eq_iff)
  have l: ?L
    by (simp add: eval_defs low_confidence_env_def)
  then have low: "confidence_below ?E (confidence ?cand) (minConfidence mockQueryPipelineConfig) = Inr True"
    by simp
  have shown: "ToString (Number_toString ?E) (confidence ?cand) = Inr ''0.3''"
    by (simp add: low_confidence_env_def stub_env_def stub_Number_toString_def)
  have msg: "''Generated SQL has low confidence: '' @ ''0.3''
                    @ ''. Minimum required: '' @ Number_toString ?E (minConfidence mockQueryPipelineConfig)
             = ''Generated SQL has low confidence: 0.3. Minimum required: 0.7''"
    by (simp add: low_confidence_env_def stub_env_def stub_Number_toString_def mockQueryPipelineConfig_def)
  from low_confidence_never_executes [OF start gen low] shown
  have concl: "askQuestion ?E mockQdrantConfig mockTextToSqlConfig mockQueryPipelineConfig ?q empty_world
        = (Failure (QueryPipelineError
             ''Generated SQL has low confidence: 0.3. Minimum required: 0.7'' None), ?w1)
      \<and> pool_queries (new_calls empty_world ?w1) = []"
    by (auto simp only: msg [symmetric] sum.inject)
  from concl have a: ?A by (simp only: fst_conv)
  have e: "calls empty_world = []" by (simp add: empty_world_def)
  from concl have "pool_queries (new_calls empty_world ?w1) = []" by (simp only:)
  then have "pool_queries (calls ?w1) = []" by (simp only: new_calls_def e list.size drop_0)
  with concl have p: ?P by (simp only: snd_conv)
  from g l a p show ?thesis by (intro conjI)
qed

text \<open>
  Claim C2. With \<open>dryRun\<close> set, a candidate that passes the confidence gate (the comparison
  answers \<open>false\<close>) and the validation is returned with \<open>results = []\<close>, and the only
  statement sent to the Schema Store during the request is the \<open>EXPLAIN\<close> of the validation
  step.
\<close>

theorem dry_run_never_executes:
  assumes dry: "dryRun config"
    and start: "builtin (Date_now E) DateNow w = (Success startTime, w0)"
    and gen: "generateSql E qconfig tconfig q w0 = (Success cand, w1)"
    and conf: "confidence_below E (confidence cand) (minConfidence config) = Inr False"
    and valid: "validateSql E (sql cand) w1 = (Success True, w2)"
    and stop: "builtin (Date_now E) DateNow w2 = (Success endTime, w3)"
  shows "\<exists>s. ToString (Number_toString E) (sql cand) = Inr s
           \<and> askQuestion E qconfig tconfig config q w =
               (Success
                  \<lparr>question = q, qr_sql = sql cand, qr_confidence = confidence cand,
                   qr_explanation = explanation cand, results = [],
                   executionTime = endTime - startTime\<rparr>,
                w3)
           \<and> calls w3 = calls w @ new_calls w w3
           \<and> pool_queries (new_calls w w3) = [JString (''EXPLAIN '' @ s)]"
proof -
  have run: "askQuestion E qconfig tconfig config q w =
           (Success
              \<lparr>question = q, qr_sql = sql cand, qr_confidence = confidence cand,
               qr_explanation = explanation cand, results = [],
               executionTime = endTime - startTime\<rparr>,
            w3)"
    using dry start gen conf valid stop
    by (simp add: askQuestion_def Effect_flatMap_def Effect_mapError_def Effect_succeed_def)
  from start have c0: "calls w0 = calls w @ [DateNow startTime]"
    by (auto simp: builtin_run split: prod.splits)
  from generateSql_calls [OF gen] obtain d where d: "calls w1 = calls w0 @ d" "pool_queries d = []"
    by blast
  from validateSql_true [OF valid] obtain s where s: "ToString (Number_toString E) (sql cand) = Inr s"
    and c2: "calls w2 = calls w1 @ [PoolQuery (JString (''EXPLAIN '' @ s)) None]"
    by blast
  from stop have c3: "calls w3 = calls w2 @ [DateNow endTime]"
    by (auto simp: builtin_run split: prod.splits)
  let ?new = "DateNow startTime # d @ [PoolQuery (JString (''EXPLAIN '' @ s)) None, DateNow endTime]"
  from c0 d c2 c3 have c: "calls w3 = calls w @ ?new" by simp
  then have n: "new_calls w w3 = ?new" by (rule new_calls_append)
  show ?thesis using s run c n d by (simp add: pool_queries_append)
qed

theorem dry_run_witness:
  "dryRun dryRunConfig
   \<and> fst (generateSql orders_env mockQdrantConfig mockTextToSqlConfig ''Show me all orders''
          (snd (builtin (Date_now orders_env) DateNow empty_world)))
       = Success \<lparr>sql = JString ''SELECT * FROM orders'', confidence = JNumber (Finite 0.85),
                   explanation = JString ''Gets all orders from the orders table''\<rparr>
   \<and> confidence_below orders_env (JNumber (Finite 0.85)) (minConfidence dryRunConfig) = Inr False
   \<and> fst (validateSql orders_env (JString ''SELECT * FROM orders'')
            (snd (generateSql orders_env mockQdrantConfig mockTextToSqlConfig ''Show me all orders''
               (snd (builtin (Date_now orders_env) DateNow empty_world)))))
       = Success True
   \<and> fst (askQuestion orders_env mockQdrantConfig mockTextToSqlConfig dryRunConfig
            ''Show me all orders'' empty_world)
       = Success \<lparr>question = ''Show me all orders'', qr_sql = JString ''SELECT * FROM orders'',
                   qr_confidence = JNumber (Finite 0.85),
                   qr_explanation = JString ''Gets all orders from the orders table'',
                   results = [], executionTime = 1\<rparr>
   \<and> pool_queries (calls (snd (askQuestion orders_env mockQdrantConfig mockTextToSqlConfig
            dryRunConfig ''Show me all orders'' empty_world)))
       = [JString ''EXPLAIN SELECT * FROM orders'']"
  (is "?D \<and> ?G \<and> ?C \<and> ?V \<and> ?A \<and> ?P")
proof -
  let ?E = orders_env
  let ?q = "''Show me all orders''"
  let ?w0 = "snd (builtin (Date_now ?E) DateNow empty_world)"
  let ?w1 = "snd (generateSql ?E mockQdrantConfig mockTextToSqlConfig ?q ?w0)"
  let ?cand = "\<lparr>sql = JString ''SELECT * FROM orders'', confidence = JNumber (Finite 0.85),
                   explanation = JString ''Gets all orders from the orders table''\<rparr>"
  let ?w2 = "snd (validateSql ?E (sql ?cand) ?w1)"
  let ?w3 = "snd (builtin (Date_now ?E) DateNow ?w2)"
  have d: ?D by (simp add: dryRunConfig_def)
  have start: "builtin (Date_now ?E) DateNow empty_world = (Success 1000, ?w0)"
    by (simp add: eval_defs orders_env_def)
  have g: ?G
    by (simp add: eval_defs orders_env_def test_embedding_def)
  then have gen: "generateSql ?E mockQdrantConfig mockTextToSqlConfig ?q ?w0 = (Success ?cand, ?w1)"
    by (simp add: prod_eq_iff)
  have c: ?C
    by (simp add: eval_defs orders_env_def dryRunConfig_def)
  then have conf: "confidence_below ?E (confidence ?cand) (minConfidence dryRunConfig) = Inr False"
    by simp
  have v: ?V
    by (simp add: validateSql_run orders_env_def stub_env_def split: prod.splits)
  then have valid: "validateSql ?E (sql ?cand) ?w1 = (Success True, ?w2)"
    by (simp add: prod_eq_iff)
  have c2: "clock (ext ?w2) = 1001"
    by (simp add: eval_defs orders_env_def test_embedding_def)
  then have stop: "builtin (Date_now ?E) DateNow ?w2 = (Success 1001, ?w3)"
    by (simp add: builtin_run orders_env_def stub_env_def)
  have shown: "ToString (Number_toString ?E) (sql ?cand) = Inr ''SELECT * FROM orders''"
    by simp
  have tm: "(1001::int) - 1000 = 1" by simp
  from dry_run_never_executes [OF d start gen conf valid stop, unfolded tm] shown
  have concl: "askQuestion ?E mockQdrantConfig mockTextToSqlConfig dryRunConfig ?q empty_world
        = (Success \<lparr>question = ?q, qr_sql = sql ?cand, qr_confidence = confidence ?cand,
                     qr_explanation = explanation ?cand, results = [], executionTime = 1\<rparr>, ?w3)
      \<and> pool_queries (new_calls empty_world ?w3) = [JString (''EXPLAIN '' @ ''SELECT * FROM orders'')]"
    by (auto simp only: sum.inject)
  from concl have a: ?A by (simp only: fst_conv SqlResult.simps)
  have e: "calls empty_world = []" by (simp add: empty_world_def)
  from concl have "pool_queries (new_calls empty_world ?w3) = [JString ''EXPLAIN SELECT * FROM orders'']"
    by simp
  then have "pool_queries (calls ?w3) = [JString ''EXPLAIN SELECT * FROM orders'']"
    by (simp only: new_calls_def e list.size drop_0)
  with concl have p: ?P by (simp only: snd_conv)
  from d g c v a p show ?thesis by (intro conjI)
qed

text \<open>
  Claim C3 says that \<open>validateSql\<close> answers \<open>false\<close> when the \<open>EXPLAIN\<close> call fails and
  never fails itself. The code does the opposite: with a database that rejects the
  statement, \<open>validateSql\<close> fails with a \<open>QueryPipelineError\<close> wrapping the database error.
  (The \<open>catch\<close> of the source is entered only when building the statement text throws,
  before any call is made: that is the only way to \<open>false\<close>, see \<open>validateSql_false\<close>.)
  The input is the invalid statement of the test "should reject invalid SQL with syntax
  errors".
\<close>

theorem validateSql_propagates_failure:
  \<open>validateSql syntax_error_env (JString ''SELCT * FORM users WHR id = 1'') empty_world =
     (Failure
        (QueryPipelineError
           ''SQL validation failed: PostgresError: Query failed: Error: syntax error at or near "SELCT"''
           (Some (PostgresError ''Query failed: Error: syntax error at or near "SELCT"''
                    (Some (Error ''Error'' ''syntax error at or near "SELCT"'' None))))),
      empty_world\<lparr>calls := [PoolQuery (JString ''EXPLAIN SELCT * FORM users WHR id = 1'') None]\<rparr>)\<close>
  by (simp add: validateSql_run syntax_error_env_def stub_env_def empty_world_def
        QueryPipelineError_def PostgresError_def Error_toString_def)

section \<open>Vector Index: collections and dimensions\<close>

text \<open>
  Claim C10. Whatever vector size is requested, when the listing of the Vector Index
  contains a collection with the configured name, \<open>createCollection\<close> succeeds after that
  single listing call: no create call is issued and nothing else is sent to the index, so
  the existing collection stays as it is, whatever its own size. Only names are compared.
\<close>

theorem createCollection_existing_untouched:
  assumes listing: "client_getCollections E (ext w) = (Inr cols, s')"
    and present: "list_ex (\<lambda>col. col_name col = collectionName config) cols"
  shows "createCollection E config requested w
           = (Success (), w\<lparr>ext := s', calls := calls w @ [GetCollections]\<rparr>)
         \<and> created (new_calls w (snd (createCollection E config requested w))) = []"
  using assms by (simp add: createCollection_run new_calls_def)

theorem createCollection_existing_witness:
  "client_getCollections orders_env (ext (trained_world (Finite 512)))
     = (Inr [\<lparr>col_name = ''test_collection'',
               col_config = Some \<lparr>size = Finite 512, distance = ''Cosine''\<rparr>\<rparr>],
        ext (trained_world (Finite 512)))
   \<and> list_ex (\<lambda>col. col_name col = collectionName mockQdrantConfig)
        [\<lparr>col_name = ''test_collection'',
               col_config = Some \<lparr>size = Finite 512, distance = ''Cosine''\<rparr>\<rparr>]
   \<and> createCollection orders_env mockQdrantConfig (Finite 1536) (trained_world (Finite 512))
       = (Success (), (trained_world (Finite 512))\<lparr>calls := [GetCollections]\<rparr>)
   \<and> collections (ext (trained_world (Finite 512)))
       = [(''test_collection'', \<lparr>size = Finite 512, distance = ''Cosine''\<rparr>)]"
  (is "?L \<and> ?P \<and> ?R \<and> ?S")
proof -
  have l: ?L by (simp add: orders_env_def stub_env_def Mock_getCollections_def trained_world_def)
  have p: ?P by (simp add: mockQdrantConfig_def)
  have s: ?S by (simp add: trained_world_def)
  have w: "(trained_world (Finite 512))\<lparr>ext := ext (trained_world (Finite 512)),
             calls := calls (trained_world (Finite 512)) @ [GetCollections]\<rparr>
           = (trained_world (Finite 512))\<lparr>calls := [GetCollections]\<rparr>"
    by (simp add: trained_world_def)
  from createCollection_existing_untouched [OF l p, of "Finite 1536", unfolded w]
  have r: ?R by (rule conjunct1)
  from l p r s show ?thesis by (intro conjI)
qed

text \<open>
  Claim C4 says that a record whose vector length differs from the size of the collection
  is rejected before any call reaches the Vector Index. \<open>upsertVectors\<close> has no such check:
  the record of the test "should handle dimension mismatch and collection errors" (512
  numbers, for a collection of size 1536) is passed unchanged to the client's \<open>upsert\<close>,
  and the outcome is whatever the client answers (here the test double accepts it).
\<close>

theorem upsertVectors_forwards_wrong_dimension:
  "length (vector invalid_vector_record) = 512
   \<and> collections (ext (trained_world (Finite 1536)))
       = [(''test_collection'', \<lparr>size = Finite 1536, distance = ''Cosine''\<rparr>)]
   \<and> fst (upsertVectors orders_env mockQdrantConfig [invalid_vector_record] (trained_world (Finite 1536)))
       = Success ()
   \<and> calls (snd (upsertVectors orders_env mockQdrantConfig [invalid_vector_record]
                   (trained_world (Finite 1536))))
       = [Upsert ''test_collection'' True [invalid_vector_record] ]"
  by (simp add: upsertVectors_run orders_env_def stub_env_def Mock_upsert_def trained_world_def
        mockQdrantConfig_def invalid_vector_record_def)

section \<open>Training Orchestrator\<close>

text \<open>
  Claim C5 says that \<open>trainFromDatabase\<close> first ensures the collection and then lists the
  tables. The code lists the tables first: when the listing is rejected (the database of
  the test "should handle schema discovery failures properly") the Vector Index is never
  contacted, and in a successful run the listing query precedes the collection calls. The
  rest of the run is as claimed: one table after the other, its DDL fetched and trained on.
\<close>

theorem trainFromDatabase_lists_tables_first:
  "trainFromDatabase permission_denied_env mockQdrantConfig mockTextToSqlConfig empty_world
     = (Failure
          (TrainingError
             ''Failed to get schema: PostgresError: Query failed: Error: Permission denied for schema information_schema''
             (Some (PostgresError
                      ''Query failed: Error: Permission denied for schema information_schema''
                      (Some (Error ''Error'' ''Permission denied for schema information_schema'' None))))),
        empty_world\<lparr>calls := [PoolQuery (JString getSchema_sql) None]\<rparr>)
   \<and> fst (trainFromDatabase users_env mockQdrantConfig mockTextToSqlConfig empty_world) = Success ()
   \<and> calls (snd (trainFromDatabase users_env mockQdrantConfig mockTextToSqlConfig empty_world))
       = [PoolQuery (JString getSchema_sql) None,
          GetCollections,
          CreateCollection ''test_collection'' \<lparr>size = Finite 1536, distance = ''Cosine''\<rparr>,
          PoolQuery (JString getTableSchema_sql) (Some [JString ''users'']),
          Embed ''text-embedding-3-small'' ''CREATE TABLE users (id integer NOT NULL)'',
          RandomUUID ''id-1'',
          NewDateISO ''2024-01-01T00:00:00.000Z'',
          Upsert ''test_collection'' True
            [\<lparr>rid = ''id-1'', vector = test_embedding,
              payload = \<lparr>content = ''CREATE TABLE users (id integer NOT NULL)'',
                metadata = Some [(''type'', JString ''schema''),
                                 (''timestamp'', JString ''2024-01-01T00:00:00.000Z'')]\<rparr>\<rparr>] ]"
  (is "?A \<and> ?B \<and> ?C")
proof -
  have a: ?A
    by (simp add: trainFromDatabase_def getSchema_def query_run Effect_flatMap_def Effect_mapError_def
          permission_denied_env_def stub_env_def empty_world_def TrainingError_def PostgresError_def
          Error_toString_def)
  have run: "trainFromDatabase users_env mockQdrantConfig mockTextToSqlConfig empty_world
     = (Success (),
        \<lparr>ext = \<lparr>collections = [(''test_collection'', \<lparr>size = Finite 1536, distance = ''Cosine''\<rparr>)],
                vectors = [''test_collection'' \<mapsto>
                  [\<lparr>rid = ''id-1'', vector = test_embedding,
                    payload = \<lparr>content = ''CREATE TABLE users (id integer NOT NULL)'',
                      metadata = Some [(''type'', JString ''schema''),
                                 (''timestamp'', JString ''2024-01-01T00:00:00.000Z'')]\<rparr>\<rparr>] ],
                uuid_queue = [''id-2'', ''id-3''], clock = 1000\<rparr>,
         calls = [PoolQuery (JString getSchema_sql) None,
          GetCollections,
          CreateCollection ''test_collection'' \<lparr>size = Finite 1536, distance = ''Cosine''\<rparr>,
          PoolQuery (JString getTableSchema_sql) (Some [JString ''users'']),
          Embed ''text-embedding-3-small'' ''CREATE TABLE users (id integer NOT NULL)'',
          RandomUUID ''id-1'',
          NewDateISO ''2024-01-01T00:00:00.000Z'',
          Upsert ''test_collection'' True
            [\<lparr>rid = ''id-1'', vector = test_embedding,
              payload = \<lparr>content = ''CREATE TABLE users (id integer NOT NULL)'',
                metadata = Some [(''type'', JString ''schema''),
                                 (''timestamp'', JString ''2024-01-01T00:00:00.000Z'')]\<rparr>\<rparr>] ]\<rparr>)"
    by (simp add: trainFromDatabase_def train_table_def getSchema_def getTableSchema_def query_run
          createCollection_run trainFromSchema_run render_column_def vectorSize_def
          Effect_flatMap_def Effect_mapError_def Effect_succeed_def
          users_env_def stub_env_def empty_world_def Mock_getCollections_def Mock_createCollection_def
          Mock_upsert_def mockQdrantConfig_def mockTextToSqlConfig_def row_get_def
          getSchema_sql_def getTableSchema_sql_def Let_def)
  from run have b: ?B by (simp only: fst_conv)
  from run have c: ?C by (simp only: snd_conv world.simps)
  from a b c show ?thesis by (intro conjI)
qed

text \<open>
  Claim C6. In every run of \<open>trainFromDdlArray\<close>, whatever the length of the input, the
  collection is ensured exactly once (one listing of the collections, at most one create
  call), and the DDLs handed to the embed-and-store step are a prefix of the input, in
  input order, each once. When the run succeeds they are exactly the input, and the
  records stored are one per DDL, in input order.
\<close>

theorem trainFromDdlArray_ensures_once_trains_in_order:
  assumes run: "trainFromDdlArray E qconfig tconfig ddls w = (r, w')"
  shows "calls w' = calls w @ new_calls w w'
         \<and> listings (new_calls w w') = 1
         \<and> length (created (new_calls w w')) \<le> 1
         \<and> prefix (embedded (new_calls w w')) ddls
         \<and> (r = Success () \<longrightarrow>
               embedded (new_calls w w') = ddls
               \<and> map (map (\<lambda>v. content (payload v))) (upserted (new_calls w w')) = map (\<lambda>x. [x]) ddls)"
proof -
  obtain r0 w0 where ens: "createCollection E qconfig vectorSize w = (r0, w0)"
    by (cases "createCollection E qconfig vectorSize w")
  from createCollection_outcome(1) [OF ens] obtain d0 where d0:
    "calls w0 = calls w @ d0" "listings d0 = 1" "embedded d0 = []" "upserted d0 = []"
    "length (created d0) \<le> 1"
    by blast
  show ?thesis
  proof (cases "r0 = Success ()")
    case False
    with createCollection_outcome(2) [OF ens] obtain e where "r0 = Failure e" by blast
    with run ens have "w' = w0" "r \<noteq> Success ()"
      by (auto simp: trainFromDdlArray_def Effect_flatMap_def Effect_mapError_def)
    with d0 show ?thesis by (simp add: new_calls_append [OF d0(1)])
  next
    case True
    obtain r1 where loop: "Effect_forEach ddls (train_ddl E qconfig tconfig) w0 = (r1, w')"
      and r1: "r = Success () \<longrightarrow> (\<exists>us. r1 = Success us)"
      using run ens True
      by (cases "Effect_forEach ddls (train_ddl E qconfig tconfig) w0")
         (auto simp: trainFromDdlArray_def Effect_flatMap_def Effect_mapError_def Effect_succeed_def
            split: exit.splits)
    from forEach_train_ddl [OF loop] obtain d where d:
      "calls w' = calls w0 @ d" "listings d = 0" "created d = []" "prefix (embedded d) ddls"
      "(\<exists>us. r1 = Success us) \<longrightarrow>
         embedded d = ddls \<and> map (map (\<lambda>v. content (payload v))) (upserted d) = map (\<lambda>x. [x]) ddls"
      by blast
    have c: "calls w' = calls w @ (d0 @ d)" using d0 d by simp
    show ?thesis using d0 d r1 by (simp add: new_calls_append [OF c] c observer_append)
  qed
qed

theorem trainFromDdlArray_witness:
  "fst (trainFromDdlArray orders_env mockQdrantConfig mockTextToSqlConfig ddlArray empty_world) = Success ()
   \<and> listings (calls (snd (trainFromDdlArray orders_env mockQdrantConfig mockTextToSqlConfig
                           ddlArray empty_world))) = 1
   \<and> embedded (calls (snd (trainFromDdlArray orders_env mockQdrantConfig mockTextToSqlConfig
                           ddlArray empty_world))) = ddlArray
   \<and> map (map (\<lambda>v. content (payload v)))
        (upserted (calls (snd (trainFromDdlArray orders_env mockQdrantConfig mockTextToSqlConfig
                           ddlArray empty_world))))
       = [ [''CREATE TABLE users (id SERIAL PRIMARY KEY);''],
          [''CREATE TABLE orders (id SERIAL PRIMARY KEY);''],
          [''CREATE TABLE products (id SERIAL PRIMARY KEY);''] ]"
  (is "?S \<and> ?L \<and> ?M \<and> ?U")
proof -
  let ?w' = "snd (trainFromDdlArray orders_env mockQdrantConfig mockTextToSqlConfig ddlArray empty_world)"
  have s: ?S
    by (simp add: train_eval_defs orders_env_def ddlArray_def)
  then have run: "trainFromDdlArray orders_env mockQdrantConfig mockTextToSqlConfig ddlArray empty_world
      = (Success (), ?w')"
    by (simp add: prod_eq_iff)
  have n: "new_calls empty_world ?w' = calls ?w'"
    by (simp add: new_calls_def empty_world_def)
  have m: "map (\<lambda>x. [x]) ddlArray
       = [ [''CREATE TABLE users (id SERIAL PRIMARY KEY);''],
          [''CREATE TABLE orders (id SERIAL PRIMARY KEY);''],
          [''CREATE TABLE products (id SERIAL PRIMARY KEY);''] ]"
    by (simp add: ddlArray_def)
  note concl = trainFromDdlArray_ensures_once_trains_in_order [OF run, unfolded n m]
  from concl have l: ?L by (simp only:)
  from concl have mu: "?M \<and> ?U" by (simp only: simp_thms)
  from s l mu show ?thesis by (simp only: simp_thms)
qed

text \<open>
  Claim C7. For each of the three entry points, the failure of a dependency call makes the
  entry point fail with a \<open>TrainingError\<close> whose cause is that failure, in the very world
  that call left behind, so nothing is attempted after it. When the call fails while
  element \<open>i\<close> is processed, the elements before \<open>i\<close> were processed with success and are
  stored, and element \<open>i\<close> is the last one for which anything is sent: the texts embedded
  (for \<open>trainFromDdlArray\<close>) and the tables asked for (for \<open>trainFromDatabase\<close>) are exactly
  the first \<open>i + 1\<close> elements. Conversely, every failure of an entry point is such a wrapped
  failure of a dependency call. \<open>trainFromDdl\<close> and \<open>trainFromDdlArray\<close> never end in a defect;
  \<open>trainFromDatabase\<close> does so only when a value of the schema rows cannot be converted to
  a string.
\<close>

theorem training_failure_policy:
  "(createCollection E qc vectorSize w = (Failure d, w')
      \<longrightarrow> trainFromDdl E qc tc ddl w
            = (Failure (TrainingError (''Failed to create collection: '' @ Error_toString d) (Some d)), w'))
   \<and> (createCollection E qc vectorSize w = (Success (), w0)
      \<longrightarrow> trainFromSchema E qc tc ddl w0 = (Failure d, w')
      \<longrightarrow> trainFromDdl E qc tc ddl w
            = (Failure (TrainingError (''Failed to train schema: '' @ Error_toString d) (Some d)), w'))
   \<and> (trainFromDdl E qc tc ddl w = (r, w')
      \<longrightarrow> (\<forall>x. r \<noteq> Die x)
          \<and> (\<forall>e. r = Failure e \<longrightarrow>
                name e = ''TrainingError''
                \<and> (\<exists>d. cause e = Some d
                     \<and> (createCollection E qc vectorSize w = (Failure d, w')
                        \<or> (\<exists>w1. createCollection E qc vectorSize w = (Success (), w1)
                               \<and> trainFromSchema E qc tc ddl w1 = (Failure d, w'))))))
   \<and> (createCollection E qc vectorSize w = (Failure d, w')
      \<longrightarrow> trainFromDdlArray E qc tc ddls w
            = (Failure (TrainingError (''Failed to create collection: '' @ Error_toString d) (Some d)), w'))
   \<and> (i < length ddls
      \<longrightarrow> trainFromDdlArray E qc tc (take i ddls) w = (Success (), wi)
      \<longrightarrow> trainFromSchema E qc tc (ddls ! i) wi = (Failure d, w')
      \<longrightarrow> trainFromDdlArray E qc tc ddls w
            = (Failure (TrainingError (''Failed to train schema: '' @ Error_toString d) (Some d)), w')
          \<and> embedded (new_calls w w') = take (Suc i) ddls
          \<and> map (map (\<lambda>v. content (payload v))) (upserted (new_calls w wi))
              = map (\<lambda>x. [x]) (take i ddls))
   \<and> (trainFromDdlArray E qc tc ddls w = (r, w')
      \<longrightarrow> (\<forall>x. r \<noteq> Die x)
          \<and> (\<forall>e. r = Failure e \<longrightarrow>
                name e = ''TrainingError''
                \<and> (\<exists>d. cause e = Some d
                     \<and> (createCollection E qc vectorSize w = (Failure d, w')
                        \<or> (\<exists>i wi. i < length ddls
                               \<and> trainFromDdlArray E qc tc (take i ddls) w = (Success (), wi)
                               \<and> trainFromSchema E qc tc (ddls ! i) wi = (Failure d, w')
                               \<and> embedded (new_calls w w') = take (Suc i) ddls
                               \<and> map (map (\<lambda>v. content (payload v))) (upserted (new_calls w wi))
                                   = map (\<lambda>x. [x]) (take i ddls))))))
   \<and> (getSchema E w = (Failure d, w')
      \<longrightarrow> trainFromDatabase E qc tc w
            = (Failure (TrainingError (''Failed to get schema: '' @ Error_toString d) (Some d)), w'))
   \<and> (getSchema E w = (Success tables, wa)
      \<longrightarrow> createCollection E qc vectorSize wa = (Failure d, w')
      \<longrightarrow> trainFromDatabase E qc tc w
            = (Failure (TrainingError (''Failed to create collection: '' @ Error_toString d) (Some d)), w'))
   \<and> (getSchema E w = (Success tables, wa)
      \<longrightarrow> createCollection E qc vectorSize wa = (Success (), wb)
      \<longrightarrow> i < length tables
      \<longrightarrow> Effect_forEach (take i tables) (train_table E qc tc) wb = (Success us, wi)
      \<longrightarrow> ToString (Number_toString E) (tables ! i) = Inr nm
      \<longrightarrow> getTableSchema E (tables ! i) wi = (Failure d, w')
      \<longrightarrow> trainFromDatabase E qc tc w
            = (Failure (TrainingError (''Failed to get table schema: '' @ Error_toString d) (Some d)), w')
          \<and> pool_params (new_calls w w') = take (Suc i) tables
          \<and> length (upserted (new_calls w wi)) = i)
   \<and> (getSchema E w = (Success tables, wa)
      \<longrightarrow> createCollection E qc vectorSize wa = (Success (), wb)
      \<longrightarrow> i < length tables
      \<longrightarrow> Effect_forEach (take i tables) (train_table E qc tc) wb = (Success us, wi)
      \<longrightarrow> getTableSchema E (tables ! i) wi = (Success ddl, wj)
      \<longrightarrow> trainFromSchema E qc tc ddl wj = (Failure d, w')
      \<longrightarrow> trainFromDatabase E qc tc w
            = (Failure (TrainingError (''Failed to train schema: '' @ Error_toString d) (Some d)), w')
          \<and> pool_params (new_calls w w') = take (Suc i) tables
          \<and> length (upserted (new_calls w wi)) = i)
   \<and> (trainFromDatabase E qc tc w = (r, w')
      \<longrightarrow> (\<forall>x. r = Die x \<longrightarrow> x = cannot_convert)
          \<and> (\<forall>e. r = Failure e \<longrightarrow>
                name e = ''TrainingError''
                \<and> (\<exists>d. cause e = Some d
                     \<and> (getSchema E w = (Failure d, w')
                        \<or> (\<exists>tables w1. getSchema E w = (Success tables, w1)
                             \<and> (createCollection E qc vectorSize w1 = (Failure d, w')
                                \<or> (\<exists>w2 i wi us. createCollection E qc vectorSize w1 = (Success (), w2)
                                      \<and> i < length tables
                                      \<and> Effect_forEach (take i tables) (train_table E qc tc) w2
                                          = (Success us, wi)
                                      \<and> (getTableSchema E (tables ! i) wi = (Failure d, w')
                                         \<or> (\<exists>ddl wj. getTableSchema E (tables ! i) wi = (Success ddl, wj)
                                                \<and> trainFromSchema E qc tc ddl wj = (Failure d, w'))))))))))"
  (is "?D1 \<and> ?D2 \<and> ?D3 \<and> ?A1 \<and> ?A2 \<and> ?A3 \<and> ?B1 \<and> ?B2 \<and> ?B3 \<and> ?B4 \<and> ?B5")
proof -
  have d1: ?D1 by (intro impI, rule trainFromDdl_create_fails)
  have d2: ?D2 by (intro impI, rule trainFromDdl_train_fails)
  have d3: ?D3 by (intro impI, rule trainFromDdl_failure)
  have a1: ?A1 by (intro impI, rule trainFromDdlArray_create_fails)
  have a2: ?A2 by (intro impI, rule trainFromDdlArray_fails_at_all)
  have a3: ?A3 by (intro impI, rule trainFromDdlArray_failure)
  have b1: ?B1 by (intro impI, rule trainFromDatabase_listing_fails)
  have b2: ?B2 by (intro impI, rule trainFromDatabase_create_fails)
  have b3: ?B3 by (intro impI, rule trainFromDatabase_get_fails_at)
  have b4: ?B4 by (intro impI, rule trainFromDatabase_train_fails_at)
  have b5: ?B5 by (intro impI, rule trainFromDatabase_failure)
  from d1 d2 d3 a1 a2 a3 b1 b2 b3 b4 b5 show ?thesis by (intro conjI)
qed

theorem training_failure_witness:
  "trainFromDdl index_unavailable_env mockQdrantConfig mockTextToSqlConfig users_ddl empty_world
     = (Failure index_failure, empty_world\<lparr>calls := [GetCollections]\<rparr>)
   \<and> trainFromDdlArray index_unavailable_env mockQdrantConfig mockTextToSqlConfig ddlArray empty_world
       = (Failure index_failure, empty_world\<lparr>calls := [GetCollections]\<rparr>)
   \<and> fst (trainFromDdl embedding_fails_env mockQdrantConfig mockTextToSqlConfig
            ''CREATE TABLE orders (id SERIAL PRIMARY KEY);'' empty_world)
       = Failure embedding_failure
   \<and> fst (trainFromDdlArray embedding_fails_env mockQdrantConfig mockTextToSqlConfig ddlArray empty_world)
       = Failure embedding_failure
   \<and> embedded (calls (snd (trainFromDdlArray embedding_fails_env mockQdrantConfig mockTextToSqlConfig
                             ddlArray empty_world)))
       = [''CREATE TABLE users (id SERIAL PRIMARY KEY);'', ''CREATE TABLE orders (id SERIAL PRIMARY KEY);'']
   \<and> trainFromDatabase permission_denied_env mockQdrantConfig mockTextToSqlConfig empty_world
       = (Failure discovery_failure, empty_world\<lparr>calls := [PoolQuery (JString getSchema_sql) None]\<rparr>)
   \<and> fst (trainFromDatabase index_unavailable_env mockQdrantConfig mockTextToSqlConfig empty_world)
       = Failure index_failure
   \<and> fst (trainFromDatabase orders_unreadable_env mockQdrantConfig mockTextToSqlConfig empty_world)
       = Failure orders_unreadable_failure
   \<and> pool_params (calls (snd (trainFromDatabase orders_unreadable_env mockQdrantConfig
                                mockTextToSqlConfig empty_world)))
       = [JString ''users'', JString ''orders'']
   \<and> fst (trainFromDatabase orders_embedding_fails_env mockQdrantConfig mockTextToSqlConfig empty_world)
       = Failure orders_embedding_failure
   \<and> pool_params (calls (snd (trainFromDatabase orders_embedding_fails_env mockQdrantConfig
                                mockTextToSqlConfig empty_world)))
       = [JString ''users'', JString ''orders'']
   \<and> name index_failure = ''TrainingError''
   \<and> name embedding_failure = ''TrainingError''
   \<and> name orders_unreadable_failure = ''TrainingError''"
  (is "?C1 \<and> ?C2 \<and> ?C3 \<and> ?C4 \<and> ?C5 \<and> ?C6 \<and> ?C7 \<and> ?C8 \<and> ?C9 \<and> ?C10 \<and> ?C11
        \<and> ?C12 \<and> ?C13 \<and> ?C14")
proof -
  let ?qc = mockQdrantConfig
  let ?tc = mockTextToSqlConfig
  have e: "calls empty_world = []" by (simp add: empty_world_def)
  have fresh: "new_calls empty_world w = calls w" for w :: "mock_state world"
    by (simp add: new_calls_def e)

  txt \<open>The Vector Index cannot be reached.\<close>
  let ?I = index_unavailable_env
  let ?qerr = "QdrantError ''Failed to create collection: Error: Connection refused - Qdrant server unavailable''
                 (Some server_error)"
  have msg1: "TrainingError (''Failed to create collection: '' @ Error_toString ?qerr) (Some ?qerr)
                = index_failure"
    by (simp add: index_failure_def Error_toString_def QdrantError_def)
  have ens1: "createCollection ?I ?qc vectorSize empty_world
                = (Failure ?qerr, empty_world\<lparr>calls := [GetCollections]\<rparr>)"
    by (simp add: createCollection_run index_unavailable_env_def empty_world_def QdrantError_def
          Error_toString_def server_error_def)
  note s1 = training_failure_policy [THEN conjunct1, rule_format, OF ens1, unfolded msg1]
  have c1: ?C1 by (rule s1)
  note s1a = training_failure_policy
    [THEN conjunct2, THEN conjunct2, THEN conjunct2, THEN conjunct1, rule_format, OF ens1, unfolded msg1]
  have c2: ?C2 by (rule s1a)
  let ?wa5 = "snd (getSchema ?I empty_world)"
  have "fst (getSchema ?I empty_world) = Success [JString ''users'']"
    by (simp add: database_eval_defs index_unavailable_env_def users_env_def)
  then have gs5: "getSchema ?I empty_world = (Success [JString ''users''], ?wa5)"
    by (simp add: prod_eq_iff)
  let ?w5 = "snd (createCollection ?I ?qc vectorSize ?wa5)"
  have "fst (createCollection ?I ?qc vectorSize ?wa5) = Failure ?qerr"
    by (simp add: createCollection_run index_unavailable_env_def QdrantError_def
          Error_toString_def server_error_def split: prod.splits)
  then have ens5: "createCollection ?I ?qc vectorSize ?wa5 = (Failure ?qerr, ?w5)"
    by (simp add: prod_eq_iff)
  note s5 = training_failure_policy
    [THEN conjunct2, THEN conjunct2, THEN conjunct2, THEN conjunct2, THEN conjunct2, THEN conjunct2,
     THEN conjunct2, THEN conjunct1, rule_format, OF gs5 ens5, unfolded msg1]
  have c7: ?C7 by (simp only: s5 fst_conv)

  txt \<open>The embedding of the second DDL fails.\<close>
  let ?F = embedding_fails_env
  let ?o = "''CREATE TABLE orders (id SERIAL PRIMARY KEY);''"
  let ?terr = "TextToSqlError
                 ''Failed to generate embedding: Error: Vector embedding failed for complex table structure''
                 (Some (Error ''Error'' ''Vector embedding failed for complex table structure'' None))"
  have msg2: "TrainingError (''Failed to train schema: '' @ Error_toString ?terr) (Some ?terr)
                = embedding_failure"
    by (simp add: embedding_failure_def Error_toString_def TextToSqlError_def)
  let ?w0 = "snd (createCollection ?F ?qc vectorSize empty_world)"
  have "fst (createCollection ?F ?qc vectorSize empty_world) = Success ()"
    by (simp add: train_eval_defs embedding_fails_env_def)
  then have ens2: "createCollection ?F ?qc vectorSize empty_world = (Success (), ?w0)"
    by (simp add: prod_eq_iff)
  let ?w2 = "snd (trainFromSchema ?F ?qc ?tc ?o ?w0)"
  have "fst (trainFromSchema ?F ?qc ?tc ?o ?w0) = Failure ?terr"
    by (simp add: train_eval_defs embedding_fails_env_def TextToSqlError_def Error_toString_def)
  then have tr2: "trainFromSchema ?F ?qc ?tc ?o ?w0 = (Failure ?terr, ?w2)"
    by (simp add: prod_eq_iff)
  note s2 = training_failure_policy
    [THEN conjunct2, THEN conjunct1, rule_format, OF ens2 tr2, unfolded msg2]
  have c3: ?C3 by (simp only: s2 fst_conv)
  have i3: "(1::nat) < length ddlArray" by (simp add: ddlArray_def)
  let ?wi3 = "snd (trainFromDdlArray ?F ?qc ?tc (take 1 ddlArray) empty_world)"
  have "fst (trainFromDdlArray ?F ?qc ?tc (take 1 ddlArray) empty_world) = Success ()"
    by (simp add: train_eval_defs embedding_fails_env_def ddlArray_def)
  then have pre3: "trainFromDdlArray ?F ?qc ?tc (take 1 ddlArray) empty_world = (Success (), ?wi3)"
    by (simp add: prod_eq_iff)
  let ?w3 = "snd (trainFromSchema ?F ?qc ?tc (ddlArray ! 1) ?wi3)"
  have "fst (trainFromSchema ?F ?qc ?tc (ddlArray ! 1) ?wi3) = Failure ?terr"
    by (simp add: train_eval_defs embedding_fails_env_def ddlArray_def TextToSqlError_def
          Error_toString_def)
  then have fail3: "trainFromSchema ?F ?qc ?tc (ddlArray ! 1) ?wi3 = (Failure ?terr, ?w3)"
    by (simp add: prod_eq_iff)
  have t3: "take (Suc 1) ddlArray
      = [''CREATE TABLE users (id SERIAL PRIMARY KEY);'', ''CREATE TABLE orders (id SERIAL PRIMARY KEY);'']"
    by (simp add: ddlArray_def)
  note s3 = training_failure_policy
    [THEN conjunct2, THEN conjunct2, THEN conjunct2, THEN conjunct2, THEN conjunct1, rule_format,
     OF i3 pre3 fail3, unfolded msg2 fresh t3]
  have c4: ?C4 by (simp only: s3 [THEN conjunct1] fst_conv)
  have c5: ?C5 by (simp only: s3 [THEN conjunct1] snd_conv s3 [THEN conjunct2, THEN conjunct1])

  txt \<open>The listing of the tables is refused.\<close>
  let ?perr = "PostgresError ''Query failed: Error: Permission denied for schema information_schema''
                 (Some (Error ''Error'' ''Permission denied for schema information_schema'' None))"
  have msg4: "TrainingError (''Failed to get schema: '' @ Error_toString ?perr) (Some ?perr)
                = discovery_failure"
    by (simp add: discovery_failure_def Error_toString_def PostgresError_def)
  have gs4: "getSchema permission_denied_env empty_world
               = (Failure ?perr, empty_world\<lparr>calls := [PoolQuery (JString getSchema_sql) None]\<rparr>)"
    by (simp add: getSchema_def query_run Effect_flatMap_def permission_denied_env_def stub_env_def
          empty_world_def PostgresError_def Error_toString_def)
  note s4 = training_failure_policy
    [THEN conjunct2, THEN conjunct2, THEN conjunct2, THEN conjunct2, THEN conjunct2, THEN conjunct2,
     THEN conjunct1, rule_format, OF gs4, unfolded msg4]
  have c6: ?C6 by (rule s4)

  txt \<open>The columns of the second table cannot be read.\<close>
  let ?U = orders_unreadable_env
  let ?tables = "[JString ''users'', JString ''orders'']"
  have t6: "take (Suc 1) ?tables = ?tables" by simp
  have i6: "(1::nat) < length ?tables" by simp
  let ?derr = "PostgresError ''Query failed: Error: Database connection failed''
                 (Some (Error ''Error'' ''Database connection failed'' None))"
  have msg6: "TrainingError (''Failed to get table schema: '' @ Error_toString ?derr) (Some ?derr)
                = orders_unreadable_failure"
    by (simp add: orders_unreadable_failure_def Error_toString_def PostgresError_def)
  let ?wa6 = "snd (getSchema ?U empty_world)"
  have "fst (getSchema ?U empty_world) = Success ?tables"
    by (simp add: database_eval_defs orders_unreadable_env_def)
  then have gs6: "getSchema ?U empty_world = (Success ?tables, ?wa6)"
    by (simp add: prod_eq_iff)
  let ?wb6 = "snd (createCollection ?U ?qc vectorSize ?wa6)"
  have "fst (createCollection ?U ?qc vectorSize ?wa6) = Success ()"
    by (simp add: database_eval_defs orders_unreadable_env_def)
  then have ens6: "createCollection ?U ?qc vectorSize ?wa6 = (Success (), ?wb6)"
    by (simp add: prod_eq_iff)
  let ?wi6 = "snd (Effect_forEach (take 1 ?tables) (train_table ?U ?qc ?tc) ?wb6)"
  have "fst (Effect_forEach (take 1 ?tables) (train_table ?U ?qc ?tc) ?wb6) = Success [()]"
    by (simp add: database_eval_defs orders_unreadable_env_def)
  then have pre6: "Effect_forEach (take 1 ?tables) (train_table ?U ?qc ?tc) ?wb6 = (Success [()], ?wi6)"
    by (simp add: prod_eq_iff)
  have nm6: "ToString (Number_toString ?U) (?tables ! 1) = Inr ''orders''" by simp
  let ?w6 = "snd (getTableSchema ?U (?tables ! 1) ?wi6)"
  have "fst (getTableSchema ?U (?tables ! 1) ?wi6) = Failure ?derr"
    by (simp add: getTableSchema_def query_run Effect_flatMap_def orders_unreadable_env_def stub_env_def
          PostgresError_def Error_toString_def split: prod.splits)
  then have fail6: "getTableSchema ?U (?tables ! 1) ?wi6 = (Failure ?derr, ?w6)"
    by (simp add: prod_eq_iff)
  note s6 = training_failure_policy
    [THEN conjunct2, THEN conjunct2, THEN conjunct2, THEN conjunct2, THEN conjunct2, THEN conjunct2,
     THEN conjunct2, THEN conjunct2, THEN conjunct1, rule_format,
     OF gs6 ens6 i6 pre6 nm6 fail6, unfolded msg6 fresh t6]
  have c8: ?C8 by (simp only: s6 [THEN conjunct1] fst_conv)
  have c9: ?C9 by (simp only: s6 [THEN conjunct1] snd_conv s6 [THEN conjunct2, THEN conjunct1])

  txt \<open>The embedding of the DDL of the second table fails.\<close>
  let ?V = orders_embedding_fails_env
  let ?oerr = "TextToSqlError ''Failed to generate embedding: Error: OpenAI embedding API quota exceeded''
                 (Some (Error ''Error'' ''OpenAI embedding API quota exceeded'' None))"
  have msg7: "TrainingError (''Failed to train schema: '' @ Error_toString ?oerr) (Some ?oerr)
                = orders_embedding_failure"
    by (simp add: orders_embedding_failure_def Error_toString_def TextToSqlError_def)
  let ?wa7 = "snd (getSchema ?V empty_world)"
  have "fst (getSchema ?V empty_world) = Success ?tables"
    by (simp add: database_eval_defs orders_embedding_fails_env_def)
  then have gs7: "getSchema ?V empty_world = (Success ?tables, ?wa7)"
    by (simp add: prod_eq_iff)
  let ?wb7 = "snd (createCollection ?V ?qc vectorSize ?wa7)"
  have "fst (createCollection ?V ?qc vectorSize ?wa7) = Success ()"
    by (simp add: database_eval_defs orders_embedding_fails_env_def)
  then have ens7: "createCollection ?V ?qc vectorSize ?wa7 = (Success (), ?wb7)"
    by (simp add: prod_eq_iff)
  let ?wi7 = "snd (Effect_forEach (take 1 ?tables) (train_table ?V ?qc ?tc) ?wb7)"
  have "fst (Effect_forEach (take 1 ?tables) (train_table ?V ?qc ?tc) ?wb7) = Success [()]"
    by (simp add: database_eval_defs orders_embedding_fails_env_def test_embedding_def)
  then have pre7: "Effect_forEach (take 1 ?tables) (train_table ?V ?qc ?tc) ?wb7 = (Success [()], ?wi7)"
    by (simp add: prod_eq_iff)
  let ?ddl = "''CREATE TABLE orders (id integer NOT NULL)''"
  let ?wj7 = "snd (getTableSchema ?V (?tables ! 1) ?wi7)"
  have "fst (getTableSchema ?V (?tables ! 1) ?wi7) = Success ?ddl"
    by (simp add: getTableSchema_def query_run Effect_flatMap_def Effect_succeed_def render_column_def
          row_get_def orders_embedding_fails_env_def stub_env_def two_tables_pg_def getSchema_sql_def
          getTableSchema_sql_def Let_def split: prod.splits)
  then have get7: "getTableSchema ?V (?tables ! 1) ?wi7 = (Success ?ddl, ?wj7)"
    by (simp add: prod_eq_iff)
  let ?w7 = "snd (trainFromSchema ?V ?qc ?tc ?ddl ?wj7)"
  have "fst (trainFromSchema ?V ?qc ?tc ?ddl ?wj7) = Failure ?oerr"
    by (simp add: trainFromSchema_run orders_embedding_fails_env_def stub_env_def TextToSqlError_def
          Error_toString_def split: prod.splits)
  then have fail7: "trainFromSchema ?V ?qc ?tc ?ddl ?wj7 = (Failure ?oerr, ?w7)"
    by (simp add: prod_eq_iff)
  note s7 = training_failure_policy
    [THEN conjunct2, THEN conjunct2, THEN conjunct2, THEN conjunct2, THEN conjunct2, THEN conjunct2,
     THEN conjunct2, THEN conjunct2, THEN conjunct2, THEN conjunct1, rule_format,
     OF gs7 ens7 i6 pre7 get7 fail7, unfolded msg7 fresh t6]
  have c10: ?C10 by (simp only: s7 [THEN conjunct1] fst_conv)
  have c11: ?C11 by (simp only: s7 [THEN conjunct1] snd_conv s7 [THEN conjunct2, THEN conjunct1])

  txt \<open>Every failure met above is a \<open>TrainingError\<close>.\<close>
  note c12 = training_failure_policy
    [THEN conjunct2, THEN conjunct2, THEN conjunct1, THEN mp, OF c1,
     THEN conjunct2, THEN spec, THEN mp, OF refl, THEN conjunct1]
  note c13 = training_failure_policy
    [THEN conjunct2, THEN conjunct2, THEN conjunct2, THEN conjunct2, THEN conjunct2, THEN conjunct1,
     THEN mp, OF s3 [THEN conjunct1], THEN conjunct2, THEN spec, THEN mp, OF refl, THEN conjunct1]
  note c14 = training_failure_policy
    [THEN conjunct2, THEN conjunct2, THEN conjunct2, THEN conjunct2, THEN conjunct2, THEN conjunct2,
     THEN conjunct2, THEN conjunct2, THEN conjunct2, THEN conjunct2,
     THEN mp, OF s6 [THEN conjunct1], THEN conjunct2, THEN spec, THEN mp, OF refl, THEN conjunct1]
  from c1 c2 c3 c4 c5 c6 c7 c8 c9 c10 c11 c12 c13 c14 show ?thesis by (intro conjI)
qed

section \<open>Generation Service\<close>

text \<open>
  Claim C9. \<open>trainFromSchema\<close> is not idempotent. Two successful calls with the same DDL
  send two upserts, each of a single record that carries the DDL and has for id the value
  that \<open>crypto.randomUUID\<close> returned during that call; as the generator returns different
  values, the two records have different ids, so the second call adds a record and does
  not replace the first.
\<close>

theorem trainFromSchema_twice_two_records:
  assumes first: "trainFromSchema E qconfig tconfig ddl w = (Success (), w1)"
    and second: "trainFromSchema E qconfig tconfig ddl w1 = (Success (), w2)"
    and fresh: "distinct (uuids (new_calls w w2))"
  shows "\<exists>v1 v2. upserted (new_calls w w2) = [ [v1], [v2] ]
           \<and> uuids (new_calls w w2) = [rid v1, rid v2]
           \<and> rid v1 \<noteq> rid v2
           \<and> content (payload v1) = ddl \<and> content (payload v2) = ddl
           \<and> calls w2 = calls w @ new_calls w w2"
proof -
  from trainFromSchema_outcome(1) [OF first] obtain d1 v1 where d1:
    "calls w1 = calls w @ d1" "upserted d1 = [ [v1] ]" "content (payload v1) = ddl" "uuids d1 = [rid v1]"
    by blast
  from trainFromSchema_outcome(1) [OF second] obtain d2 v2 where d2:
    "calls w2 = calls w1 @ d2" "upserted d2 = [ [v2] ]" "content (payload v2) = ddl" "uuids d2 = [rid v2]"
    by blast
  have c: "calls w2 = calls w @ (d1 @ d2)" using d1 d2 by simp
  have n: "new_calls w w2 = d1 @ d2" using c by (rule new_calls_append)
  from fresh have "rid v1 \<noteq> rid v2" using d1 d2 by (simp add: n observer_append)
  then show ?thesis using d1 d2 c by (auto simp: n observer_append)
qed

theorem trainFromSchema_twice_witness:
  "fst (trainFromSchema orders_env mockQdrantConfig mockTextToSqlConfig users_ddl (trained_world (Finite 1536)))
     = Success ()
   \<and> fst (trainFromSchema orders_env mockQdrantConfig mockTextToSqlConfig users_ddl
            (snd (trainFromSchema orders_env mockQdrantConfig mockTextToSqlConfig users_ddl
                    (trained_world (Finite 1536)))))
       = Success ()
   \<and> uuids (calls (snd (trainFromSchema orders_env mockQdrantConfig mockTextToSqlConfig users_ddl
            (snd (trainFromSchema orders_env mockQdrantConfig mockTextToSqlConfig users_ddl
                    (trained_world (Finite 1536)))))))
       = [''id-1'', ''id-2'']
   \<and> (\<exists>v1 v2. upserted (calls (snd (trainFromSchema orders_env mockQdrantConfig mockTextToSqlConfig users_ddl
            (snd (trainFromSchema orders_env mockQdrantConfig mockTextToSqlConfig users_ddl
                    (trained_world (Finite 1536))))))) = [ [v1], [v2] ] \<and> rid v1 \<noteq> rid v2)
   \<and> vectors (ext (trained_world (Finite 1536))) ''test_collection'' = Some []
   \<and> vectors (ext (snd (trainFromSchema orders_env mockQdrantConfig mockTextToSqlConfig users_ddl
            (snd (trainFromSchema orders_env mockQdrantConfig mockTextToSqlConfig users_ddl
                    (trained_world (Finite 1536))))))) ''test_collection''
       = Some [users_record ''id-1'', users_record ''id-2'']"
  (is "?A \<and> ?B \<and> ?U \<and> ?X \<and> ?V0 \<and> ?V2")
proof -
  let ?w = "trained_world (Finite 1536)"
  let ?w1 = "snd (trainFromSchema orders_env mockQdrantConfig mockTextToSqlConfig users_ddl ?w)"
  let ?w2 = "snd (trainFromSchema orders_env mockQdrantConfig mockTextToSqlConfig users_ddl ?w1)"
  have a: ?A by (simp add: train_eval_defs orders_env_def)
  then have first: "trainFromSchema orders_env mockQdrantConfig mockTextToSqlConfig users_ddl ?w
      = (Success (), ?w1)"
    by (simp add: prod_eq_iff)
  have b: ?B by (simp add: train_eval_defs orders_env_def)
  then have second: "trainFromSchema orders_env mockQdrantConfig mockTextToSqlConfig users_ddl ?w1
      = (Success (), ?w2)"
    by (simp add: prod_eq_iff)
  have n: "new_calls ?w ?w2 = calls ?w2"
    by (simp add: new_calls_def trained_world_def)
  have u: ?U by (simp add: train_eval_defs orders_env_def)
  then have fresh: "distinct (uuids (new_calls ?w ?w2))" by (simp add: n)
  from trainFromSchema_twice_two_records [OF first second fresh, unfolded n]
  have x: ?X by blast
  have v0: ?V0 by (simp add: trained_world_def)
  have v2: ?V2 by (simp add: train_eval_defs orders_env_def users_record_def)
  from a b u x v0 v2 show ?thesis by (intro conjI)
qed

text \<open>
  What \<open>generateSql\<close> returns once the completion call has answered with the text \<open>txt\<close> is
  decided by \<open>JSON.parse\<close> alone: a \<open>TextToSqlError\<close> carrying the thrown error when
  \<open>JSON.parse\<close> throws, or when the parsed value is \<open>null\<close> (or \<open>undefined\<close>) so that reading its
  first field throws; otherwise the three fields exactly as parsed. The confidence is not
  clamped, and the completion model is called once: nothing is repaired or retried.
\<close>

lemma generateSql_returns_parsed_verbatim:
  assumes emb: "ai_embed E (embeddingModel tconfig) q (ext w) = (Inr v, s1)"
    and hits: "client_search E (collectionName qconfig)
                 \<lparr>sp_vector = v, sp_limit = Finite 5, sp_with_payload = True, sp_filter = None\<rparr> s1
               = (Inr ps, s2)"
    and contents: "payload_contents ps = Inr cs"
    and joined: "Array_join (Number_toString E) ''\<newline>\<newline>'' cs = Inr ctx"
    and completion:
      "ai_generateText E (model tconfig) (make_prompt ctx q)
         (case maxTokens tconfig of None \<Rightarrow> Finite 1000 | Some n \<Rightarrow> n)
         (case temperature tconfig of None \<Rightarrow> Finite 0.1 | Some t \<Rightarrow> t) s2
       = (Inr txt, s3)"
  shows "generateSql E qconfig tconfig q w =
           ((case JSON_parse E txt of
               Inl e \<Rightarrow>
                 Failure (TextToSqlError (''Failed to parse AI response: '' @ Error_toString e) (Some e))
             | Inr JNull \<Rightarrow>
                 Failure
                   (TextToSqlError
                      (''Failed to parse AI response: TypeError: Cannot read properties of null (reading ''
                         @ [CHR 0x27] @ ''sql'' @ [CHR 0x27] @ '')'')
                      (Some (TypeError (''Cannot read properties of null (reading ''
                                          @ [CHR 0x27] @ ''sql'' @ [CHR 0x27] @ '')''))))
             | Inr JUndefined \<Rightarrow>
                 Failure
                   (TextToSqlError
                      (''Failed to parse AI response: TypeError: Cannot read properties of undefined (reading ''
                         @ [CHR 0x27] @ ''sql'' @ [CHR 0x27] @ '')'')
                      (Some (TypeError (''Cannot read properties of undefined (reading ''
                                          @ [CHR 0x27] @ ''sql'' @ [CHR 0x27] @ '')''))))
             | Inr (JObject props) \<Rightarrow>
                 Success \<lparr>sql = row_get props ''sql'',
                          confidence = row_get props ''confidence'',
                          explanation = row_get props ''explanation''\<rparr>
             | Inr other \<Rightarrow>
                 Success \<lparr>sql = JUndefined, confidence = JUndefined, explanation = JUndefined\<rparr>),
            w\<lparr>ext := s3,
              calls := calls w @
                [Embed (embeddingModel tconfig) q,
                 Search (collectionName qconfig)
                   \<lparr>sp_vector = v, sp_limit = Finite 5, sp_with_payload = True, sp_filter = None\<rparr>,
                 GenerateText (model tconfig) (make_prompt ctx q)
                   (case maxTokens tconfig of None \<Rightarrow> Finite 1000 | Some n \<Rightarrow> n)
                   (case temperature tconfig of None \<Rightarrow> Finite 0.1 | Some t \<Rightarrow> t)]\<rparr>)"
proof -
  have parse: "parse_response E txt =
      (case JSON_parse E txt of
         Inl e \<Rightarrow> Inl e
       | Inr JNull \<Rightarrow> Inl (TypeError (''Cannot read properties of null (reading ''
                                          @ [CHR 0x27] @ ''sql'' @ [CHR 0x27] @ '')''))
       | Inr JUndefined \<Rightarrow> Inl (TypeError (''Cannot read properties of undefined (reading ''
                                          @ [CHR 0x27] @ ''sql'' @ [CHR 0x27] @ '')''))
       | Inr (JObject props) \<Rightarrow>
           Inr \<lparr>sql = row_get props ''sql'', confidence = row_get props ''confidence'',
                explanation = row_get props ''explanation''\<rparr>
       | Inr other \<Rightarrow> Inr \<lparr>sql = JUndefined, confidence = JUndefined, explanation = JUndefined\<rparr>)"
    by (simp add: parse_response_def row_get_def split: sum.splits jsval.splits)
  have run: "generateSql E qconfig tconfig q w =
      ((case parse_response E txt of
          Inr r \<Rightarrow> Success r
        | Inl e \<Rightarrow> Failure (TextToSqlError (''Failed to parse AI response: '' @ Error_toString e) (Some e))),
       w\<lparr>ext := s3,
              calls := calls w @
                [Embed (embeddingModel tconfig) q,
                 Search (collectionName qconfig)
                   \<lparr>sp_vector = v, sp_limit = Finite 5, sp_with_payload = True, sp_filter = None\<rparr>,
                 GenerateText (model tconfig) (make_prompt ctx q)
                   (case maxTokens tconfig of None \<Rightarrow> Finite 1000 | Some n \<Rightarrow> n)
                   (case temperature tconfig of None \<Rightarrow> Finite 0.1 | Some t \<Rightarrow> t)]\<rparr>)"
    using emb hits contents joined completion
    by (simp add: generateSql_def search_run Effect_flatMap_def Effect_mapError_def
          Effect_tryPromise_def external_call_def Effect_succeed_def Effect_fail_def Let_def
          split: sum.splits)
  show ?thesis
  proof (cases "JSON_parse E txt")
    case (Inl e)
    then show ?thesis by (simp add: run parse)
  next
    case (Inr parsed)
    then show ?thesis
      by (cases parsed) (simp_all add: run parse TypeError_def Error_toString_def)
  qed
qed

text \<open>A confidence of \<open>1.5\<close> is returned as it is.\<close>

lemma generateSql_keeps_out_of_range_confidence:
  "ai_embed (completion_env out_of_range_completion) (embeddingModel mockTextToSqlConfig) ''Count''
       (ext empty_world)
     = (Inr test_embedding, ext empty_world)
   \<and> client_search (completion_env out_of_range_completion) (collectionName mockQdrantConfig)
         \<lparr>sp_vector = test_embedding, sp_limit = Finite 5, sp_with_payload = True, sp_filter = None\<rparr>
         (ext empty_world)
       = (Inr [], ext empty_world)
   \<and> payload_contents [] = Inr []
   \<and> Array_join (Number_toString (completion_env out_of_range_completion)) ''\<newline>\<newline>'' []
       = Inr []
   \<and> ai_generateText (completion_env out_of_range_completion) (model mockTextToSqlConfig)
         (make_prompt [] ''Count'')
         (case maxTokens mockTextToSqlConfig of None \<Rightarrow> Finite 1000 | Some n \<Rightarrow> n)
         (case temperature mockTextToSqlConfig of None \<Rightarrow> Finite 0.1 | Some t \<Rightarrow> t)
         (ext empty_world)
       = (Inr out_of_range_completion, ext empty_world)
   \<and> JSON_parse (completion_env out_of_range_completion) out_of_range_completion
       = Inr (JObject [(''sql'', JString ''SELECT 1''), (''confidence'', JNumber (Finite 1.5)),
                       (''explanation'', JString ''one'')])
   \<and> fst (generateSql (completion_env out_of_range_completion) mockQdrantConfig mockTextToSqlConfig
            ''Count'' empty_world)
       = Success \<lparr>sql = JString ''SELECT 1'', confidence = JNumber (Finite 1.5),
                   explanation = JString ''one''\<rparr>"
  (is "?H1 \<and> ?H2 \<and> ?H3 \<and> ?HJ \<and> ?H4 \<and> ?J \<and> ?R")
proof -
  let ?E = "completion_env out_of_range_completion"
  have h1: ?H1 by (simp add: completion_env_def stub_env_def)
  have h2: ?H2
    by (simp add: completion_env_def stub_env_def Mock_search_def empty_world_def mockQdrantConfig_def)
  have h3: ?H3 by simp
  have hj: ?HJ by (simp add: Array_join_def)
  have h4: ?H4 by (simp add: completion_env_def stub_env_def)
  have j: ?J
    by (simp add: completion_env_def stub_env_def stub_JSON_parse_def out_of_range_completion_def)
  note concl = generateSql_returns_parsed_verbatim [OF h1 h2 h3 hj h4, unfolded j]
  from concl have r: ?R by (simp add: row_get_def)
  from h1 h2 h3 hj h4 j r show ?thesis by (intro conjI)
qed

text \<open>
  Claim C8 says that \<open>generateSql\<close> fails when one of the fields \<open>sql\<close>, \<open>confidence\<close>,
  \<open>explanation\<close> is absent from the parsed completion. It does not: nothing in the code
  looks at the fields. For the completion \<open>{}\<close> it succeeds and returns the three fields as
  \<open>undefined\<close>, a value that its declared result type \<open>SqlResult\<close> (a string, a number, a
  string) does not have. For a completion with a statement and no \<open>confidence\<close> it succeeds
  too, and then in \<open>askQuestion\<close> the comparison of \<open>undefined\<close> with \<open>minConfidence = 0.7\<close> is
  false: the candidate passes the confidence gate and its statement is executed.
\<close>

theorem generateSql_accepts_missing_fields:
  "JSON_parse (completion_env ''{}'') ''{}'' = Inr (JObject [])
   \<and> fst (generateSql (completion_env ''{}'') mockQdrantConfig mockTextToSqlConfig ''Show me the data''
            empty_world)
       = Success \<lparr>sql = JUndefined, confidence = JUndefined, explanation = JUndefined\<rparr>
   \<and> JSON_parse (completion_env no_confidence_completion) no_confidence_completion
       = Inr (JObject [(''sql'', JString ''SELECT * FROM orders''),
                       (''explanation'', JString ''Gets all orders from the orders table'')])
   \<and> fst (generateSql (completion_env no_confidence_completion) mockQdrantConfig mockTextToSqlConfig
            ''Show me all orders'' empty_world)
       = Success \<lparr>sql = JString ''SELECT * FROM orders'', confidence = JUndefined,
                   explanation = JString ''Gets all orders from the orders table''\<rparr>
   \<and> confidence_below (completion_env no_confidence_completion) JUndefined
         (minConfidence mockQueryPipelineConfig) = Inr False
   \<and> fst (askQuestion (completion_env no_confidence_completion) mockQdrantConfig mockTextToSqlConfig
            mockQueryPipelineConfig ''Show me all orders'' empty_world)
       = Success \<lparr>question = ''Show me all orders'', qr_sql = JString ''SELECT * FROM orders'',
                   qr_confidence = JUndefined,
                   qr_explanation = JString ''Gets all orders from the orders table'',
                   results = [], executionTime = 1\<rparr>
   \<and> pool_queries (calls (snd (askQuestion (completion_env no_confidence_completion) mockQdrantConfig
            mockTextToSqlConfig mockQueryPipelineConfig ''Show me all orders'' empty_world)))
       = [JString ''EXPLAIN SELECT * FROM orders'', JString ''SELECT * FROM orders'']"
  (is "?P0 \<and> ?G0 \<and> ?P1 \<and> ?G1 \<and> ?C \<and> ?A \<and> ?Q")
proof -
  have p0: ?P0 by (simp add: completion_env_def stub_env_def stub_JSON_parse_def)
  have g0: ?G0 by (simp add: eval_defs completion_env_def test_embedding_def)
  have p1: ?P1
    by (simp add: completion_env_def stub_env_def stub_JSON_parse_def no_confidence_completion_def)
  have g1: ?G1
    by (simp add: eval_defs completion_env_def no_confidence_completion_def test_embedding_def
          row_get_def)
  have c: ?C by (simp add: eval_defs completion_env_def)
  have a: ?A
    by (simp add: eval_defs completion_env_def no_confidence_completion_def test_embedding_def
          row_get_def)
  have q: ?Q
    by (simp add: eval_defs completion_env_def no_confidence_completion_def test_embedding_def
          row_get_def)
  from p0 g0 p1 g1 c a q show ?thesis by (intro conjI)
qed

end
